theory Spec2Isabelle
  imports Main
begin

section \<open>Port forwarding over a peer-to-peer overlay: the P2pClient of go-ipfs-p2p\<close>

text \<open>
  The client multiplexes local TCP traffic onto named streams of a libp2p overlay and
  back. This theory embeds the public operations of \<^verbatim>\<open>P2pClient\<close>
  (\<^verbatim>\<open>List\<close>, \<^verbatim>\<open>Listen\<close>, \<^verbatim>\<open>Forward\<close>, \<^verbatim>\<open>CheckForwardHealth\<close>,
  \<^verbatim>\<open>ConnectCircuit\<close>, \<^verbatim>\<open>Close\<close>, \<^verbatim>\<open>Destroy\<close>) and the address resolver
  \<^verbatim>\<open>parseIpfsAddr\<close>. A Go \<^verbatim>\<open>error\<close> result is an \<open>error option\<close> (\<open>None\<close> is
  \<^verbatim>\<open>nil\<close>), a nil pointer or nil interface is \<open>None\<close> of an option type, and a
  panic is the outcome \<open>Panics\<close>.
\<close>

subsection \<open>Data\<close>

text \<open>
  A multiaddress is represented by its canonical text, the value of its \<^verbatim>\<open>String()\<close>
  method; two multiaddresses are \<^verbatim>\<open>Equal\<close> exactly when these texts coincide. A peer
  identity is the text \<^verbatim>\<open>Pretty()\<close> prints; the empty string is the empty identity.
\<close>

type_synonym multiaddr = string
type_synonym peer_id = string
type_synonym protocol_id = string

datatype error =
    EmptyPeerID                            \<comment> \<open>\<^verbatim>\<open>peer id cannot be empty\<close>\<close>
  | NoRelayAvailable                       \<comment> \<open>\<^verbatim>\<open>not enough bootstrap peers\<close>\<close>
  | ResolutionFailed multiaddr             \<comment> \<open>\<^verbatim>\<open>fail to resolve the multiaddr:\<close> and the address\<close>
  | AmbiguousAddress multiaddr peer_id peer_id
                                           \<comment> \<open>\<^verbatim>\<open>ambiguous multiaddr %s could refer to %s or %s\<close>\<close>
  | Collaborator string                    \<comment> \<open>an error value produced by a library the client calls\<close>

text \<open>\<^verbatim>\<open>peer.AddrInfo\<close>. \<^verbatim>\<open>SplitAddr\<close> may return a nil transport part, which
  \<^verbatim>\<open>parseIpfsAddr\<close> appends as it is, hence the option.\<close>

record AddrInfo =
  ID :: peer_id
  Addrs :: "multiaddr option list"

text \<open>What the \<^verbatim>\<open>ipfsp2p.Listener\<close> interface shows of a forward. A listener made by
  \<^verbatim>\<open>Listen\<close> holds the target it was given, which may be the nil multiaddress.\<close>

record Listener =
  lProtocol :: protocol_id
  lListenAddress :: multiaddr
  lTargetAddress :: "multiaddr option"

record P2PListenerInfoOutput =
  Protocol :: string
  ListenAddress :: string
  TargetAddress :: string

text \<open>\<^verbatim>\<open>ipfsp2p.P2P\<close>: the two listener registries and the registry of open forwarded
  streams (by identifier).\<close>

record p2p =
  identity :: peer_id
  ListenersLocal :: "Listener list"
  ListenersP2P :: "Listener list"
  Streams :: "nat list"

text \<open>The part of \<^verbatim>\<open>host.Host\<close> the client acts on: the streams it has opened and not
  closed, the connect requests it has issued, and the entries it has put in the address
  book.\<close>

record host =
  open_streams :: "(peer_id \<times> protocol_id) list"
  connects :: "AddrInfo list"
  addrbook :: "(peer_id \<times> multiaddr option list) list"

record client =
  Host :: "host option"
  P2P :: "p2p option"
  Peers :: "string list"

datatype 'a outcome = Returns 'a client | Panics

text \<open>
  The libraries the client calls (go-multiaddr, go-multiaddr-dns, go-libp2p) are not part
  of the repository; their answers are parameters. \<open>NewStream\<close> and \<open>Connect\<close> answer with
  the error of the dial, a timeout included; \<open>BindLocal\<close> and \<open>RegisterRemote\<close> with the
  error of binding the local socket or of registering the protocol handler.
\<close>

record overlay =
  NewMultiaddr :: "string \<Rightarrow> error + multiaddr"
  AddrInfoFromP2pAddr :: "multiaddr \<Rightarrow> error + AddrInfo"
  Resolve :: "multiaddr \<Rightarrow> error + multiaddr list"
  SplitAddr :: "multiaddr \<Rightarrow> multiaddr option \<times> peer_id"
  NewStream :: "peer_id \<Rightarrow> protocol_id \<Rightarrow> error option"
  Connect :: "AddrInfo \<Rightarrow> error option"
  BindLocal :: "multiaddr \<Rightarrow> Listener list \<Rightarrow> error option"
  RegisterRemote :: "protocol_id \<Rightarrow> multiaddr option \<Rightarrow> Listener list \<Rightarrow> error option"
  HostClose :: "host \<Rightarrow> error option"
  PeerAddrInfo :: "string \<Rightarrow> AddrInfo"

subsection \<open>Formatting\<close>

text \<open>\<^verbatim>\<open>fmt.Sprintf("%d", port)\<close>: the decimal digits, with a minus sign below zero.\<close>

function digits_of :: "nat \<Rightarrow> string" where
  "digits_of n =
     (if n < 10 then [''0123456789'' ! n]
      else digits_of (n div 10) @ [''0123456789'' ! (n mod 10)])"
  by pat_completeness auto
termination
  by (relation "measure id") auto

declare digits_of.simps [simp del]

definition Sprintf_d :: "int \<Rightarrow> string" where
  "Sprintf_d i = (if i < 0 then CHR ''-'' # digits_of (nat (- i)) else digits_of (nat i))"

subsection \<open>The address resolver\<close>

text \<open>The loop of \<^verbatim>\<open>parseIpfsAddr\<close> over the resolved addresses: \<open>info\<close> is the
  \<^verbatim>\<open>AddrInfo\<close> built so far.\<close>

fun merge_resolved :: "overlay \<Rightarrow> multiaddr \<Rightarrow> AddrInfo \<Rightarrow> multiaddr list \<Rightarrow> error + AddrInfo" where
  "merge_resolved ov m info [] = Inr info"
| "merge_resolved ov m info (a # as) =
     (case SplitAddr ov a of (taddr, pid) \<Rightarrow>
        if pid = [] then merge_resolved ov m info as
        else if ID info = [] then
          merge_resolved ov m (info\<lparr>ID := pid, Addrs := Addrs info @ [taddr]\<rparr>) as
        else if ID info = pid then
          merge_resolved ov m (info\<lparr>Addrs := Addrs info @ [taddr]\<rparr>) as
        else Inl (AmbiguousAddress m (ID info) pid))"

definition parseIpfsAddr :: "overlay \<Rightarrow> string \<Rightarrow> error + AddrInfo" where
  "parseIpfsAddr ov addr =
     (case NewMultiaddr ov addr of
        Inl e \<Rightarrow> Inl e
      | Inr m \<Rightarrow>
          (case AddrInfoFromP2pAddr ov m of
             Inr pi \<Rightarrow> Inr pi
           | Inl _ \<Rightarrow>
               (case Resolve ov m of
                  Inl e \<Rightarrow> Inl e
                | Inr addrs \<Rightarrow>
                    if length addrs = 0 then Inl (ResolutionFailed m)
                    else merge_resolved ov m \<lparr>ID = [], Addrs = []\<rparr> addrs)))"

subsection \<open>The listener registries\<close>

text \<open>\<^verbatim>\<open>filterListener\<close>: the listeners the predicate accepts, in order. The predicate
  may panic (\<open>None\<close>), and then so does the filter.\<close>

fun filterListener :: "Listener list \<Rightarrow> (Listener \<Rightarrow> bool option) \<Rightarrow> Listener list option" where
  "filterListener [] matchFunc = Some []"
| "filterListener (l # ls) matchFunc =
     (case matchFunc l of
        None \<Rightarrow> None
      | Some b \<Rightarrow>
          (case filterListener ls matchFunc of
             None \<Rightarrow> None
           | Some todo \<Rightarrow> Some (if b then l # todo else todo)))"

text \<open>Modelled from the spec: \<^verbatim>\<open>Listeners.Close\<close> of the registry, which is not in the
  repository: it closes and removes all the forwards the predicate accepts and returns
  their number.\<close>

definition Listeners_Close ::
  "Listener list \<Rightarrow> (Listener \<Rightarrow> bool option) \<Rightarrow> (nat \<times> Listener list) option" where
  "Listeners_Close ls matchFunc =
     (case filterListener ls matchFunc of
        None \<Rightarrow> None
      | Some todo \<Rightarrow> Some (length todo, filter (\<lambda>l. matchFunc l \<noteq> Some True) ls))"

text \<open>Modelled from the spec: \<^verbatim>\<open>P2P.ForwardRemote\<close>, which is not in the repository: it
  registers an overlay-to-local forward of the protocol to the target, at the end of the
  overlay registry, unless the protocol handler cannot be registered.\<close>

definition ForwardRemote ::
  "overlay \<Rightarrow> client \<Rightarrow> protocol_id \<Rightarrow> multiaddr option \<Rightarrow> error option outcome" where
  "ForwardRemote ov c proto addr =
     (case P2P c of
        None \<Rightarrow> Panics
      | Some p \<Rightarrow>
          (case RegisterRemote ov proto addr (ListenersP2P p) of
             Some e \<Rightarrow> Returns (Some e) c
           | None \<Rightarrow>
               Returns None
                 (c\<lparr>P2P := Some (p\<lparr>ListenersP2P := ListenersP2P p @
                      [\<lparr>lProtocol = proto, lListenAddress = ''/p2p/'' @ identity p,
                        lTargetAddress = addr\<rparr>]\<rparr>)\<rparr>)))"

text \<open>Modelled from the spec: \<^verbatim>\<open>P2P.ForwardLocal\<close>, which is not in the repository: it
  binds the local address and registers a local-to-overlay forward of the protocol from
  that address to the peer, at the end of the local registry.\<close>

definition ForwardLocal ::
  "overlay \<Rightarrow> p2p \<Rightarrow> peer_id \<Rightarrow> protocol_id \<Rightarrow> multiaddr \<Rightarrow> error option \<times> p2p" where
  "ForwardLocal ov p pid proto bindAddr =
     (case BindLocal ov bindAddr (ListenersLocal p) of
        Some e \<Rightarrow> (Some e, p)
      | None \<Rightarrow>
          (None, p\<lparr>ListenersLocal := ListenersLocal p @
                    [\<lparr>lProtocol = proto, lListenAddress = bindAddr,
                      lTargetAddress = Some (''/p2p/'' @ pid)\<rparr>]\<rparr>))"

subsection \<open>The operations of the client\<close>

definition listener_info :: "Listener \<Rightarrow> P2PListenerInfoOutput option" where
  "listener_info l =
     (case lTargetAddress l of
        None \<Rightarrow> None
      | Some t \<Rightarrow> Some \<lparr>Protocol = lProtocol l, ListenAddress = lListenAddress l, TargetAddress = t\<rparr>)"

fun list_infos :: "Listener list \<Rightarrow> P2PListenerInfoOutput list option" where
  "list_infos [] = Some []"
| "list_infos (l # ls) =
     (case listener_info l of
        None \<Rightarrow> None
      | Some i \<Rightarrow> (case list_infos ls of None \<Rightarrow> None | Some out \<Rightarrow> Some (i # out)))"

text \<open>\<^verbatim>\<open>List\<close>: the \<^verbatim>\<open>Listeners\<close> of the output, local forwards first. The text of a
  nil target cannot be read.\<close>

definition List :: "client \<Rightarrow> P2PListenerInfoOutput list outcome" where
  "List c =
     (case P2P c of
        None \<Rightarrow> Panics
      | Some p \<Rightarrow>
          (case list_infos (ListenersLocal p) of
             None \<Rightarrow> Panics
           | Some out1 \<Rightarrow>
               (case list_infos (ListenersP2P p) of
                  None \<Rightarrow> Panics
                | Some out2 \<Rightarrow> Returns (out1 @ out2) c)))"

text \<open>\<^verbatim>\<open>Listen\<close> prints the error of parsing the target and goes on with the nil
  multiaddress.\<close>

definition Listen :: "overlay \<Rightarrow> client \<Rightarrow> string \<Rightarrow> string \<Rightarrow> error option outcome" where
  "Listen ov c proto targetOpt =
     (let target = (case NewMultiaddr ov targetOpt of Inl _ \<Rightarrow> None | Inr t \<Rightarrow> Some t)
      in ForwardRemote ov c proto target)"

definition host_NewStream ::
  "overlay \<Rightarrow> host \<Rightarrow> peer_id \<Rightarrow> protocol_id \<Rightarrow> error + ((peer_id \<times> protocol_id) \<times> host)" where
  "host_NewStream ov h pid proto =
     (case NewStream ov pid proto of
        Some e \<Rightarrow> Inl e
      | None \<Rightarrow> Inr ((pid, proto), h\<lparr>open_streams := (pid, proto) # open_streams h\<rparr>))"

definition stream_Close :: "(peer_id \<times> protocol_id) \<Rightarrow> host \<Rightarrow> host" where
  "stream_Close s h = h\<lparr>open_streams := remove1 s (open_streams h)\<rparr>"

definition CheckForwardHealth ::
  "overlay \<Rightarrow> client \<Rightarrow> string \<Rightarrow> string \<Rightarrow> error option outcome" where
  "CheckForwardHealth ov c proto peerId =
     (let targetOpt = ''/p2p/'' @ peerId in
      case parseIpfsAddr ov targetOpt of
        Inl e \<Rightarrow> Returns (Some e) c
      | Inr targets \<Rightarrow>
          (case Host c of
             None \<Rightarrow> Panics
           | Some h \<Rightarrow>
               (case host_NewStream ov h (ID targets) proto of
                  Inl e \<Rightarrow> Returns (Some e) c
                | Inr (stream, h') \<Rightarrow> Returns None (c\<lparr>Host := Some (stream_Close stream h')\<rparr>))))"

text \<open>\<^verbatim>\<open>ma.StringCast\<close> panics on a text that does not parse.\<close>

definition ConnectCircuit ::
  "overlay \<Rightarrow> client \<Rightarrow> string \<Rightarrow> string \<Rightarrow> error option outcome" where
  "ConnectCircuit ov c circuitPeer targetPeer =
     (case NewMultiaddr ov (''/p2p/'' @ circuitPeer @ ''/p2p-circuit/p2p/'' @ targetPeer) of
        Inl _ \<Rightarrow> Panics
      | Inr maddr \<Rightarrow>
          (case AddrInfoFromP2pAddr ov maddr of
             Inl e \<Rightarrow> Returns (Some e) c
           | Inr pi \<Rightarrow>
               (case Host c of
                  None \<Rightarrow> Panics
                | Some h \<Rightarrow>
                    Returns (Connect ov pi) (c\<lparr>Host := Some (h\<lparr>connects := connects h @ [pi]\<rparr>)\<rparr>))))"

text \<open>Modelled from the spec: \<^verbatim>\<open>convertPeers\<close>, which is not in the repository: the
  configured relay candidates are each an \<^verbatim>\<open>AddrInfo\<close>, fixed when the client is made.\<close>

definition convertPeers :: "overlay \<Rightarrow> string list \<Rightarrow> AddrInfo list" where
  "convertPeers ov peers = map (PeerAddrInfo ov) peers"

text \<open>Modelled from the spec: \<^verbatim>\<open>randomSubsetOfPeers\<close>, which is not in the repository: it
  selects peers at random from the set, one when one is asked for, and none from the
  empty set. \<open>rnd\<close> is the random draw, the position of the first peer selected.\<close>

definition randomSubsetOfPeers :: "nat \<Rightarrow> AddrInfo list \<Rightarrow> nat \<Rightarrow> AddrInfo list" where
  "randomSubsetOfPeers rnd ins mx =
     (if ins = [] then [] else take mx (rotate (rnd mod length ins) ins))"

text \<open>\<^verbatim>\<open>forwardLocal\<close>, with the peerstore of the host that its caller reads for it: a
  nil host and a nil \<^verbatim>\<open>AddrInfo\<close> pointer panic before anything is changed.\<close>

definition forwardLocal ::
  "overlay \<Rightarrow> client \<Rightarrow> p2p \<Rightarrow> protocol_id \<Rightarrow> multiaddr \<Rightarrow> AddrInfo option \<Rightarrow> error option outcome" where
  "forwardLocal ov c p proto bindAddr addr =
     (case Host c of
        None \<Rightarrow> Panics
      | Some h \<Rightarrow>
          (case addr of
             None \<Rightarrow> Panics
           | Some ai \<Rightarrow>
               (let h' = h\<lparr>addrbook := addrbook h @ [(ID ai, Addrs ai)]\<rparr>;
                    (err, p') = ForwardLocal ov p (ID ai) proto bindAddr
                in Returns err (c\<lparr>Host := Some h', P2P := Some p'\<rparr>))))"

text \<open>The predicate \<^verbatim>\<open>Forward\<close> filters the local registry with. Go's \<^verbatim>\<open>&&\<close> reads the
  target texts only when protocol and listen address agree.\<close>

definition forward_match ::
  "protocol_id \<Rightarrow> multiaddr \<Rightarrow> multiaddr option \<Rightarrow> Listener \<Rightarrow> bool option" where
  "forward_match protoId listen target l =
     (if lProtocol l = protoId \<and> lListenAddress l = listen then
        (case lTargetAddress l of
           None \<Rightarrow> None
         | Some a \<Rightarrow> (case target of None \<Rightarrow> None | Some t \<Rightarrow> Some (a = t)))
      else Some False)"

text \<open>\<^verbatim>\<open>Forward\<close> from the line that formats \<^verbatim>\<open>listenOpt\<close> to its end.\<close>

definition Forward_register ::
  "overlay \<Rightarrow> client \<Rightarrow> string \<Rightarrow> int \<Rightarrow> string \<Rightarrow> error option outcome" where
  "Forward_register ov c protoOpt port peerId =
     (let listenOpt = ''/ip4/127.0.0.1/tcp/'' @ Sprintf_d port;
          targetOpt = ''/p2p/'' @ peerId
      in case NewMultiaddr ov listenOpt of
           Inl e \<Rightarrow> Returns (Some e) c
         | Inr listen \<Rightarrow>
             (let targetAddrInfo = (case parseIpfsAddr ov targetOpt of Inl _ \<Rightarrow> None | Inr ai \<Rightarrow> Some ai)
              in case P2P c of
                   None \<Rightarrow> Panics
                 | Some p \<Rightarrow>
                     (let target = (case NewMultiaddr ov targetOpt of Inl _ \<Rightarrow> None | Inr t \<Rightarrow> Some t)
                      in case filterListener (ListenersLocal p) (forward_match protoOpt listen target) of
                           None \<Rightarrow> Panics
                         | Some listeners \<Rightarrow>
                             if length listeners > 0 then Returns None c
                             else forwardLocal ov c p protoOpt listen targetAddrInfo)))"

text \<open>The deferred \<^verbatim>\<open>recover\<close>: a panic after it is registered ends \<^verbatim>\<open>Forward\<close> with
  the zero value of its unnamed result, the nil error. \<open>c\<close> is the client at the panic.\<close>

definition recovered :: "client \<Rightarrow> error option outcome \<Rightarrow> error option outcome" where
  "recovered c r = (case r of Panics \<Rightarrow> Returns None c | Returns e c' \<Rightarrow> Returns e c')"

definition Forward ::
  "overlay \<Rightarrow> nat \<Rightarrow> client \<Rightarrow> string \<Rightarrow> int \<Rightarrow> string \<Rightarrow> error option outcome" where
  "Forward ov rnd c protoOpt port peerId =
     (if peerId = [] then Returns (Some EmptyPeerID) c
      else
        case CheckForwardHealth ov c protoOpt peerId of
          Panics \<Rightarrow> Panics
        | Returns None c1 \<Rightarrow> Forward_register ov c1 protoOpt port peerId
        | Returns (Some err) c1 \<Rightarrow>
            (let bootstrapPeers = randomSubsetOfPeers rnd (convertPeers ov (Peers c1)) 1
             in if length bootstrapPeers = 0 then Returns (Some NoRelayAvailable) c1
                else
                  (let circuitPeerId = ID (hd bootstrapPeers)
                   in case ConnectCircuit ov c1 circuitPeerId peerId of
                        Panics \<Rightarrow> Returns None c1
                      | Returns (Some e) c2 \<Rightarrow> Returns (Some e) c2
                      | Returns None c2 \<Rightarrow>
                          recovered c2 (Forward_register ov c2 protoOpt port peerId))))"

text \<open>The predicate of \<^verbatim>\<open>Close\<close>, \<^verbatim>\<open>targetAddress.Equal(listener.TargetAddress())\<close>, which
  reads the bytes of the target of the listener.\<close>

definition close_match :: "multiaddr \<Rightarrow> Listener \<Rightarrow> bool option" where
  "close_match targetAddress l =
     (case lTargetAddress l of None \<Rightarrow> None | Some a \<Rightarrow> Some (targetAddress = a))"

definition Close :: "overlay \<Rightarrow> client \<Rightarrow> string \<Rightarrow> (nat \<times> error option) outcome" where
  "Close ov c target =
     (case NewMultiaddr ov target of
        Inl e \<Rightarrow> Returns (0, Some e) c
      | Inr targetAddress \<Rightarrow>
          (case P2P c of
             None \<Rightarrow> Panics
           | Some p \<Rightarrow>
               (case Listeners_Close (ListenersLocal p) (close_match targetAddress) of
                  None \<Rightarrow> Panics
                | Some (done1, locals) \<Rightarrow>
                    (case Listeners_Close (ListenersP2P p) (close_match targetAddress) of
                       None \<Rightarrow> Panics
                     | Some (done2, remotes) \<Rightarrow>
                         Returns (done1 + done2, None)
                           (c\<lparr>P2P := Some (p\<lparr>ListenersLocal := locals, ListenersP2P := remotes\<rparr>)\<rparr>)))))"

text \<open>\<^verbatim>\<open>Destroy\<close> closes the streams and the forwards of both registries, closes the
  host, and sets both references of the client to nil.\<close>

definition Destroy :: "overlay \<Rightarrow> client \<Rightarrow> error option outcome" where
  "Destroy ov c =
     (case P2P c of
        None \<Rightarrow> Panics
      | Some p \<Rightarrow>
          (let p1 = p\<lparr>Streams := fold remove1 (Streams p) (Streams p)\<rparr>;
               match = (\<lambda>l. Some True)
           in case Listeners_Close (ListenersP2P p1) match of
                None \<Rightarrow> Panics
              | Some (_, remotes) \<Rightarrow>
                  (case Listeners_Close (ListenersLocal p1) match of
                     None \<Rightarrow> Panics
                   | Some (_, locals) \<Rightarrow>
                       (case Host c of
                          None \<Rightarrow> Panics
                        | Some h \<Rightarrow>
                            (let err = HostClose ov h
                             in Returns err (c\<lparr>P2P := None, Host := None\<rparr>))))))"

subsection \<open>A concrete overlay and client\<close>

text \<open>
  An overlay for the concrete instances below. Its parser knows a handful of addresses and
  drops trailing slashes before it looks a text up, as go-multiaddr does; a \<^verbatim>\<open>/dnsaddr\<close>
  name resolves to the addresses listed for it and any other address to itself; every dial
  succeeds; a local address binds unless a registered forward listens on it, and a
  protocol handler registers unless the protocol has one.
\<close>

definition trim_slashes :: "string \<Rightarrow> string" where
  "trim_slashes s = rev (dropWhile (\<lambda>ch. ch = CHR ''/'') (rev s))"

definition example_addresses :: "string list" where
  "example_addresses =
     [''/ip4/127.0.0.1/tcp/80'', ''/ip4/127.0.0.1/tcp/8000'',
      ''/p2p/QmTarget'', ''/p2p/QmRelay/p2p-circuit/p2p/QmTarget'',
      ''/ip4/10.0.0.1/tcp/4001/p2p/QmTarget'', ''/ip4/10.0.0.2/tcp/4001'',
      ''/ip4/10.0.0.3/tcp/4001/p2p/QmOther'', ''/ip4/10.0.0.4/tcp/4001/p2p/QmTarget'',
      ''/dnsaddr/node.example.org'', ''/dnsaddr/two.example.org'',
      ''/dnsaddr/none.example.org'', ''/dnsaddr/plain.example.org'']"

definition example_NewMultiaddr :: "string \<Rightarrow> error + multiaddr" where
  "example_NewMultiaddr s =
     (if trim_slashes s \<in> set example_addresses then Inr (trim_slashes s)
      else Inl (Collaborator ''failed to parse multiaddr''))"

definition example_SplitAddr :: "multiaddr \<Rightarrow> multiaddr option \<times> peer_id" where
  "example_SplitAddr m =
     (if m = ''/p2p/QmTarget'' then (None, ''QmTarget'')
      else if m = ''/p2p/QmRelay/p2p-circuit/p2p/QmTarget'' then (Some ''/p2p/QmRelay/p2p-circuit'', ''QmTarget'')
      else if m = ''/ip4/10.0.0.1/tcp/4001/p2p/QmTarget'' then (Some ''/ip4/10.0.0.1/tcp/4001'', ''QmTarget'')
      else if m = ''/ip4/10.0.0.4/tcp/4001/p2p/QmTarget'' then (Some ''/ip4/10.0.0.4/tcp/4001'', ''QmTarget'')
      else if m = ''/ip4/10.0.0.3/tcp/4001/p2p/QmOther'' then (Some ''/ip4/10.0.0.3/tcp/4001'', ''QmOther'')
      else if m = ''/ip4/34.139.126.73/tcp/4001/p2p/QmRelay'' then (Some ''/ip4/34.139.126.73/tcp/4001'', ''QmRelay'')
      else (Some m, []))"

definition example_AddrInfoFromP2pAddr :: "multiaddr \<Rightarrow> error + AddrInfo" where
  "example_AddrInfoFromP2pAddr m =
     (case example_SplitAddr m of
        (transport, pid) \<Rightarrow>
          if pid = [] then Inl (Collaborator ''invalid p2p multiaddr'')
          else Inr \<lparr>ID = pid, Addrs = (case transport of None \<Rightarrow> [] | Some t \<Rightarrow> [Some t])\<rparr>)"

definition example_Resolve :: "multiaddr \<Rightarrow> error + multiaddr list" where
  "example_Resolve m =
     (if m = ''/dnsaddr/node.example.org'' then
        Inr [''/ip4/10.0.0.1/tcp/4001/p2p/QmTarget'', ''/ip4/10.0.0.2/tcp/4001'',
             ''/ip4/10.0.0.4/tcp/4001/p2p/QmTarget'']
      else if m = ''/dnsaddr/two.example.org'' then
        Inr [''/ip4/10.0.0.1/tcp/4001/p2p/QmTarget'', ''/ip4/10.0.0.3/tcp/4001/p2p/QmOther'']
      else if m = ''/dnsaddr/none.example.org'' then Inr []
      else if m = ''/dnsaddr/plain.example.org'' then Inr [''/ip4/10.0.0.2/tcp/4001'']
      else Inr [m])"

definition example_overlay :: overlay where
  "example_overlay =
     \<lparr>NewMultiaddr = example_NewMultiaddr,
      AddrInfoFromP2pAddr = example_AddrInfoFromP2pAddr,
      Resolve = example_Resolve,
      SplitAddr = example_SplitAddr,
      NewStream = (\<lambda>pid proto. None),
      Connect = (\<lambda>pi. None),
      BindLocal = (\<lambda>bindAddr ls. if bindAddr \<in> lListenAddress ` set ls
                     then Some (Collaborator ''address already in use'') else None),
      RegisterRemote = (\<lambda>proto addr ls. if proto \<in> lProtocol ` set ls
                     then Some (Collaborator ''listener already registered'') else None),
      HostClose = (\<lambda>h. None),
      PeerAddrInfo = (\<lambda>s. \<lparr>ID = snd (example_SplitAddr s), Addrs = [fst (example_SplitAddr s)]\<rparr>)\<rparr>"

text \<open>The same overlay with a target that no dial reaches.\<close>

definition unreachable_overlay :: overlay where
  "unreachable_overlay = example_overlay\<lparr>NewStream := (\<lambda>pid proto. Some (Collaborator ''dial backoff''))\<rparr>"

definition example_host :: host where
  "example_host = \<lparr>open_streams = [], connects = [], addrbook = []\<rparr>"

definition example_p2p :: p2p where
  "example_p2p = \<lparr>identity = ''QmSelf'', ListenersLocal = [], ListenersP2P = [], Streams = []\<rparr>"

definition example_client :: client where
  "example_client =
     \<lparr>Host = Some example_host, P2P = Some example_p2p,
      Peers = [''/ip4/34.139.126.73/tcp/4001/p2p/QmRelay'']\<rparr>"

text \<open>
  Clients for the concrete instances: one with an overlay-to-local forward to a local
  web server, one after \<^verbatim>\<open>Destroy\<close>, one after a first \<^verbatim>\<open>Forward\<close> to \<^verbatim>\<open>QmTarget\<close>, and
  one that has issued a connect request through the relay; and an overlay on which no
  dial succeeds, the dial to the relay included.
\<close>

definition listening_client :: client where
  "listening_client = example_client\<lparr>P2P := Some (example_p2p\<lparr>ListenersP2P :=
      [\<lparr>lProtocol = ''/x/ssh'', lListenAddress = ''/p2p/QmSelf'',
        lTargetAddress = Some ''/ip4/127.0.0.1/tcp/80''\<rparr>]\<rparr>)\<rparr>"

definition destroyed_client :: client where
  "destroyed_client = example_client\<lparr>P2P := None, Host := None\<rparr>"

definition forwarded_p2p :: p2p where
  "forwarded_p2p = example_p2p\<lparr>ListenersLocal :=
     [\<lparr>lProtocol = ''/x/ssh'', lListenAddress = ''/ip4/127.0.0.1/tcp/8000'',
       lTargetAddress = Some ''/p2p/QmTarget''\<rparr>]\<rparr>"

definition forwarded_client :: client where
  "forwarded_client =
     \<lparr>Host = Some (example_host\<lparr>addrbook := [(''QmTarget'', [])]\<rparr>), P2P = Some forwarded_p2p,
      Peers = [''/ip4/34.139.126.73/tcp/4001/p2p/QmRelay'']\<rparr>"

definition relay_down_overlay :: overlay where
  "relay_down_overlay = unreachable_overlay\<lparr>Connect := (\<lambda>pi. Some (Collaborator ''dial to relay failed''))\<rparr>"

definition dialed_client :: client where
  "dialed_client = example_client\<lparr>Host := Some (example_host\<lparr>connects :=
      [\<lparr>ID = ''QmTarget'', Addrs = [Some ''/p2p/QmRelay/p2p-circuit'']\<rparr>]\<rparr>)\<rparr>"

lemmas example_defs =
  example_overlay_def unreachable_overlay_def example_NewMultiaddr_def example_SplitAddr_def
  example_AddrInfoFromP2pAddr_def example_Resolve_def example_addresses_def trim_slashes_def
  example_host_def example_p2p_def example_client_def

lemmas eval_defs =
  Forward_def CheckForwardHealth_def parseIpfsAddr_def host_NewStream_def stream_Close_def
  Forward_register_def Sprintf_d_def digits_of.simps forward_match_def forwardLocal_def
  ForwardLocal_def randomSubsetOfPeers_def convertPeers_def ConnectCircuit_def recovered_def

section \<open>The address resolver\<close>

subsection \<open>The loop over the resolved addresses\<close>

lemma merge_resolved_skip:
  "\<forall>a\<in>set addrs. snd (SplitAddr ov a) = [] \<Longrightarrow> merge_resolved ov m info addrs = Inr info"
  by (induction addrs) (auto split: prod.splits)

lemma merge_resolved_known:
  "ID info \<noteq> [] \<Longrightarrow> \<forall>a\<in>set addrs. snd (SplitAddr ov a) = [] \<or> snd (SplitAddr ov a) = ID info \<Longrightarrow>
   merge_resolved ov m info addrs =
     Inr (info\<lparr>Addrs := Addrs info @
            map (\<lambda>a. fst (SplitAddr ov a)) (filter (\<lambda>a. snd (SplitAddr ov a) \<noteq> []) addrs)\<rparr>)"
proof (induction addrs arbitrary: info)
  case Nil
  then show ?case by simp
next
  case (Cons a as)
  obtain t pid where sp: "SplitAddr ov a = (t, pid)" by (cases "SplitAddr ov a")
  show ?case
  proof (cases "pid = []")
    case True
    with sp Cons show ?thesis by simp
  next
    case False
    with sp Cons.prems have eq: "pid = ID info" by auto
    let ?info = "info\<lparr>Addrs := Addrs info @ [t]\<rparr>"
    have "merge_resolved ov m info (a # as) = merge_resolved ov m ?info as"
      using sp False eq Cons.prems(1) by simp
    also have "\<dots> = Inr (?info\<lparr>Addrs := Addrs ?info @
            map (\<lambda>a. fst (SplitAddr ov a)) (filter (\<lambda>a. snd (SplitAddr ov a) \<noteq> []) as)\<rparr>)"
      using Cons.prems by (intro Cons.IH) auto
    finally show ?thesis using sp False by simp
  qed
qed

lemma merge_resolved_fresh:
  "ID info = [] \<Longrightarrow> x \<noteq> [] \<Longrightarrow>
   \<forall>a\<in>set addrs. snd (SplitAddr ov a) = [] \<or> snd (SplitAddr ov a) = x \<Longrightarrow>
   \<exists>a\<in>set addrs. snd (SplitAddr ov a) = x \<Longrightarrow>
   merge_resolved ov m info addrs =
     Inr (info\<lparr>ID := x, Addrs := Addrs info @
            map (\<lambda>a. fst (SplitAddr ov a)) (filter (\<lambda>a. snd (SplitAddr ov a) \<noteq> []) addrs)\<rparr>)"
proof (induction addrs)
  case Nil
  then show ?case by simp
next
  case (Cons a as)
  obtain t pid where sp: "SplitAddr ov a = (t, pid)" by (cases "SplitAddr ov a")
  show ?case
  proof (cases "pid = []")
    case True
    with sp Cons show ?thesis by auto
  next
    case False
    with sp Cons.prems have eq: "pid = x" by auto
    let ?info = "info\<lparr>ID := x, Addrs := Addrs info @ [t]\<rparr>"
    have "merge_resolved ov m info (a # as) = merge_resolved ov m ?info as"
      using sp False eq Cons.prems(1) by simp
    also have "\<dots> = Inr (?info\<lparr>Addrs := Addrs ?info @
            map (\<lambda>a. fst (SplitAddr ov a)) (filter (\<lambda>a. snd (SplitAddr ov a) \<noteq> []) as)\<rparr>)"
      using Cons.prems by (intro merge_resolved_known) auto
    finally show ?thesis using sp False by simp
  qed
qed

lemma merge_resolved_conflict_known:
  "ID info \<noteq> [] \<Longrightarrow> \<exists>a\<in>set addrs. snd (SplitAddr ov a) \<noteq> [] \<and> snd (SplitAddr ov a) \<noteq> ID info \<Longrightarrow>
   \<exists>y. merge_resolved ov m info addrs = Inl (AmbiguousAddress m (ID info) y) \<and>
       y \<noteq> ID info \<and> y \<noteq> [] \<and> y \<in> (\<lambda>a. snd (SplitAddr ov a)) ` set addrs"
proof (induction addrs arbitrary: info)
  case Nil
  then show ?case by simp
next
  case (Cons a as)
  obtain t pid where sp: "SplitAddr ov a = (t, pid)" by (cases "SplitAddr ov a")
  consider "pid = []" | "pid = ID info" "pid \<noteq> []" | "pid \<noteq> []" "pid \<noteq> ID info" by blast
  then show ?case
  proof cases
    case 1
    with sp Cons.prems have "\<exists>a\<in>set as. snd (SplitAddr ov a) \<noteq> [] \<and> snd (SplitAddr ov a) \<noteq> ID info"
      by auto
    from Cons.IH [OF Cons.prems(1) this] 1 sp show ?thesis by auto
  next
    case 2
    let ?info = "info\<lparr>Addrs := Addrs info @ [t]\<rparr>"
    from 2 sp Cons.prems
    have ex: "\<exists>a\<in>set as. snd (SplitAddr ov a) \<noteq> [] \<and> snd (SplitAddr ov a) \<noteq> ID ?info"
      by auto
    have "ID ?info \<noteq> []" using Cons.prems(1) by simp
    from Cons.IH [OF this ex] 2 sp Cons.prems(1) show ?thesis by auto
  next
    case 3
    with sp Cons.prems(1) show ?thesis by auto
  qed
qed

lemma merge_resolved_conflict_fresh:
  "ID info = [] \<Longrightarrow>
   \<exists>a\<in>set addrs. \<exists>b\<in>set addrs. snd (SplitAddr ov a) \<noteq> [] \<and> snd (SplitAddr ov b) \<noteq> [] \<and>
      snd (SplitAddr ov a) \<noteq> snd (SplitAddr ov b) \<Longrightarrow>
   \<exists>x y. merge_resolved ov m info addrs = Inl (AmbiguousAddress m x y) \<and>
       x \<noteq> y \<and> x \<noteq> [] \<and> y \<noteq> [] \<and>
       x \<in> (\<lambda>a. snd (SplitAddr ov a)) ` set addrs \<and> y \<in> (\<lambda>a. snd (SplitAddr ov a)) ` set addrs"
proof (induction addrs)
  case Nil
  then show ?case by simp
next
  case (Cons a as)
  obtain t pid where sp: "SplitAddr ov a = (t, pid)" by (cases "SplitAddr ov a")
  show ?case
  proof (cases "pid = []")
    case True
    with sp Cons.prems have "\<exists>a\<in>set as. \<exists>b\<in>set as. snd (SplitAddr ov a) \<noteq> [] \<and> snd (SplitAddr ov b) \<noteq> [] \<and>
      snd (SplitAddr ov a) \<noteq> snd (SplitAddr ov b)" by auto
    from Cons.IH [OF Cons.prems(1) this] True sp show ?thesis by auto
  next
    case False
    let ?info = "info\<lparr>ID := pid, Addrs := Addrs info @ [t]\<rparr>"
    from False sp Cons.prems(2)
    have ex: "\<exists>a\<in>set as. snd (SplitAddr ov a) \<noteq> [] \<and> snd (SplitAddr ov a) \<noteq> ID ?info"
      by auto
    have ne: "ID ?info \<noteq> []" using False by simp
    from merge_resolved_conflict_known [OF ne ex, of m]
    obtain y where y: "merge_resolved ov m ?info as = Inl (AmbiguousAddress m pid y)"
      "y \<noteq> pid" "y \<noteq> []" "y \<in> (\<lambda>a. snd (SplitAddr ov a)) ` set as" by auto
    have "merge_resolved ov m info (a # as) = merge_resolved ov m ?info as"
      using sp False Cons.prems(1) by simp
    with y False sp show ?thesis by (intro exI [of _ pid] exI [of _ y]) auto
  qed
qed

subsection \<open>Resolution of an address text\<close>

text \<open>
  C6, as the code has it. For an address text that parses: if it encodes a peer, the
  resolver decodes it whatever the external resolver would answer; otherwise, if the
  resolution yields no address it fails with \<open>ResolutionFailed\<close>; if the results carry two
  distinct peer identities it fails with \<open>AmbiguousAddress\<close>, naming two distinct identities
  of the results; and if the results carry one identity \<open>x\<close>, it returns \<open>x\<close> with the
  network addresses of the results that carry an identity, in order. The results without
  an identity are left out.
\<close>

theorem parseIpfsAddr_cases:
  assumes "NewMultiaddr ov addr = Inr m"
  shows "(AddrInfoFromP2pAddr ov m = Inr pi \<longrightarrow> parseIpfsAddr (ov\<lparr>Resolve := r\<rparr>) addr = Inr pi) \<and>
    (AddrInfoFromP2pAddr ov m = Inl e \<and> Resolve ov m = Inr [] \<longrightarrow>
       parseIpfsAddr ov addr = Inl (ResolutionFailed m)) \<and>
    (AddrInfoFromP2pAddr ov m = Inl e \<and> Resolve ov m = Inr addrs \<and>
     (\<exists>a\<in>set addrs. \<exists>b\<in>set addrs. snd (SplitAddr ov a) \<noteq> [] \<and> snd (SplitAddr ov b) \<noteq> [] \<and>
        snd (SplitAddr ov a) \<noteq> snd (SplitAddr ov b)) \<longrightarrow>
       (\<exists>x y. parseIpfsAddr ov addr = Inl (AmbiguousAddress m x y) \<and> x \<noteq> y \<and> x \<noteq> [] \<and> y \<noteq> [] \<and>
          x \<in> (\<lambda>a. snd (SplitAddr ov a)) ` set addrs \<and> y \<in> (\<lambda>a. snd (SplitAddr ov a)) ` set addrs)) \<and>
    (AddrInfoFromP2pAddr ov m = Inl e \<and> Resolve ov m = Inr addrs \<and> x \<noteq> [] \<and>
     (\<exists>a\<in>set addrs. snd (SplitAddr ov a) = x) \<and>
     (\<forall>a\<in>set addrs. snd (SplitAddr ov a) = [] \<or> snd (SplitAddr ov a) = x) \<longrightarrow>
       parseIpfsAddr ov addr =
         Inr \<lparr>ID = x, Addrs = map (\<lambda>a. fst (SplitAddr ov a))
                                (filter (\<lambda>a. snd (SplitAddr ov a) \<noteq> []) addrs)\<rparr>)"
proof (intro conjI impI)
  assume "AddrInfoFromP2pAddr ov m = Inr pi"
  with assms show "parseIpfsAddr (ov\<lparr>Resolve := r\<rparr>) addr = Inr pi"
    by (simp add: parseIpfsAddr_def)
next
  assume "AddrInfoFromP2pAddr ov m = Inl e \<and> Resolve ov m = Inr []"
  with assms show "parseIpfsAddr ov addr = Inl (ResolutionFailed m)"
    by (simp add: parseIpfsAddr_def)
next
  assume h: "AddrInfoFromP2pAddr ov m = Inl e \<and> Resolve ov m = Inr addrs \<and>
     (\<exists>a\<in>set addrs. \<exists>b\<in>set addrs. snd (SplitAddr ov a) \<noteq> [] \<and> snd (SplitAddr ov b) \<noteq> [] \<and>
        snd (SplitAddr ov a) \<noteq> snd (SplitAddr ov b))"
  then have ne: "addrs \<noteq> []" by auto
  from h have "ID \<lparr>ID = [], Addrs = []\<rparr> = []" by simp
  from merge_resolved_conflict_fresh [OF this, of addrs ov m] h
  obtain x y where "merge_resolved ov m \<lparr>ID = [], Addrs = []\<rparr> addrs = Inl (AmbiguousAddress m x y)"
    "x \<noteq> y" "x \<noteq> []" "y \<noteq> []"
    "x \<in> (\<lambda>a. snd (SplitAddr ov a)) ` set addrs" "y \<in> (\<lambda>a. snd (SplitAddr ov a)) ` set addrs"
    by blast
  with assms h ne
  show "\<exists>x y. parseIpfsAddr ov addr = Inl (AmbiguousAddress m x y) \<and> x \<noteq> y \<and> x \<noteq> [] \<and> y \<noteq> [] \<and>
          x \<in> (\<lambda>a. snd (SplitAddr ov a)) ` set addrs \<and> y \<in> (\<lambda>a. snd (SplitAddr ov a)) ` set addrs"
    by (intro exI [of _ x] exI [of _ y]) (simp add: parseIpfsAddr_def)
next
  assume h: "AddrInfoFromP2pAddr ov m = Inl e \<and> Resolve ov m = Inr addrs \<and> x \<noteq> [] \<and>
     (\<exists>a\<in>set addrs. snd (SplitAddr ov a) = x) \<and>
     (\<forall>a\<in>set addrs. snd (SplitAddr ov a) = [] \<or> snd (SplitAddr ov a) = x)"
  then have ne: "addrs \<noteq> []" by auto
  have "merge_resolved ov m \<lparr>ID = [], Addrs = []\<rparr> addrs =
     Inr (\<lparr>ID = [], Addrs = []\<rparr>\<lparr>ID := x, Addrs := Addrs \<lparr>ID = [], Addrs = []\<rparr> @
            map (\<lambda>a. fst (SplitAddr ov a)) (filter (\<lambda>a. snd (SplitAddr ov a) \<noteq> []) addrs)\<rparr>)"
    using h by (intro merge_resolved_fresh) auto
  with assms h ne
  show "parseIpfsAddr ov addr =
         Inr \<lparr>ID = x, Addrs = map (\<lambda>a. fst (SplitAddr ov a))
                                (filter (\<lambda>a. snd (SplitAddr ov a) \<noteq> []) addrs)\<rparr>"
    by (simp add: parseIpfsAddr_def)
qed

theorem parseIpfsAddr_cases_witness:
  "parseIpfsAddr (example_overlay\<lparr>Resolve := (\<lambda>m. Inl (Collaborator ''no resolver''))\<rparr>) ''/p2p/QmTarget'' =
     Inr \<lparr>ID = ''QmTarget'', Addrs = []\<rparr> \<and>
   parseIpfsAddr example_overlay ''/dnsaddr/none.example.org'' =
     Inl (ResolutionFailed ''/dnsaddr/none.example.org'') \<and>
   (\<exists>x y. parseIpfsAddr example_overlay ''/dnsaddr/two.example.org'' =
       Inl (AmbiguousAddress ''/dnsaddr/two.example.org'' x y) \<and> x \<noteq> y) \<and>
   parseIpfsAddr example_overlay ''/dnsaddr/node.example.org'' =
     Inr \<lparr>ID = ''QmTarget'', Addrs = [Some ''/ip4/10.0.0.1/tcp/4001'', Some ''/ip4/10.0.0.4/tcp/4001'']\<rparr>"
proof -
  have p1: "NewMultiaddr example_overlay ''/p2p/QmTarget'' = Inr ''/p2p/QmTarget''"
    by (simp add: example_defs)
  have a1: "AddrInfoFromP2pAddr example_overlay ''/p2p/QmTarget'' = Inr \<lparr>ID = ''QmTarget'', Addrs = []\<rparr>"
    by (simp add: example_defs)
  have p2: "NewMultiaddr example_overlay ''/dnsaddr/none.example.org'' = Inr ''/dnsaddr/none.example.org''"
    by (simp add: example_defs)
  have a2: "AddrInfoFromP2pAddr example_overlay ''/dnsaddr/none.example.org'' = Inl (Collaborator ''invalid p2p multiaddr'')"
    by (simp add: example_defs)
  have r2: "Resolve example_overlay ''/dnsaddr/none.example.org'' = Inr []"
    by (simp add: example_defs)
  have p3: "NewMultiaddr example_overlay ''/dnsaddr/two.example.org'' = Inr ''/dnsaddr/two.example.org''"
    by (simp add: example_defs)
  have a3: "AddrInfoFromP2pAddr example_overlay ''/dnsaddr/two.example.org'' = Inl (Collaborator ''invalid p2p multiaddr'')"
    by (simp add: example_defs)
  have r3: "Resolve example_overlay ''/dnsaddr/two.example.org'' =
      Inr [''/ip4/10.0.0.1/tcp/4001/p2p/QmTarget'', ''/ip4/10.0.0.3/tcp/4001/p2p/QmOther'']"
    by (simp add: example_defs)
  have s3: "\<exists>a\<in>set [''/ip4/10.0.0.1/tcp/4001/p2p/QmTarget'', ''/ip4/10.0.0.3/tcp/4001/p2p/QmOther''].
      \<exists>b\<in>set [''/ip4/10.0.0.1/tcp/4001/p2p/QmTarget'', ''/ip4/10.0.0.3/tcp/4001/p2p/QmOther''].
        snd (SplitAddr example_overlay a) \<noteq> [] \<and> snd (SplitAddr example_overlay b) \<noteq> [] \<and>
        snd (SplitAddr example_overlay a) \<noteq> snd (SplitAddr example_overlay b)"
    by (simp add: example_defs)
  have p4: "NewMultiaddr example_overlay ''/dnsaddr/node.example.org'' = Inr ''/dnsaddr/node.example.org''"
    by (simp add: example_defs)
  have a4: "AddrInfoFromP2pAddr example_overlay ''/dnsaddr/node.example.org'' = Inl (Collaborator ''invalid p2p multiaddr'')"
    by (simp add: example_defs)
  have r4: "Resolve example_overlay ''/dnsaddr/node.example.org'' =
      Inr [''/ip4/10.0.0.1/tcp/4001/p2p/QmTarget'', ''/ip4/10.0.0.2/tcp/4001'',
           ''/ip4/10.0.0.4/tcp/4001/p2p/QmTarget'']"
    by (simp add: example_defs)
  have s4: "(\<exists>a\<in>set [''/ip4/10.0.0.1/tcp/4001/p2p/QmTarget'', ''/ip4/10.0.0.2/tcp/4001'',
           ''/ip4/10.0.0.4/tcp/4001/p2p/QmTarget'']. snd (SplitAddr example_overlay a) = ''QmTarget'') \<and>
     (\<forall>a\<in>set [''/ip4/10.0.0.1/tcp/4001/p2p/QmTarget'', ''/ip4/10.0.0.2/tcp/4001'',
           ''/ip4/10.0.0.4/tcp/4001/p2p/QmTarget''].
        snd (SplitAddr example_overlay a) = [] \<or> snd (SplitAddr example_overlay a) = ''QmTarget'')"
    by (simp add: example_defs)
  have c1: "parseIpfsAddr (example_overlay\<lparr>Resolve := (\<lambda>m. Inl (Collaborator ''no resolver''))\<rparr>) ''/p2p/QmTarget'' =
     Inr \<lparr>ID = ''QmTarget'', Addrs = []\<rparr>"
    using parseIpfsAddr_cases [OF p1] a1 by blast
  have c2: "parseIpfsAddr example_overlay ''/dnsaddr/none.example.org'' =
     Inl (ResolutionFailed ''/dnsaddr/none.example.org'')"
    using parseIpfsAddr_cases [OF p2] a2 r2 by blast
  have c3: "\<exists>x y. parseIpfsAddr example_overlay ''/dnsaddr/two.example.org'' =
       Inl (AmbiguousAddress ''/dnsaddr/two.example.org'' x y) \<and> x \<noteq> y"
    using parseIpfsAddr_cases [OF p3, of _ _ "Collaborator ''invalid p2p multiaddr''"
        "[''/ip4/10.0.0.1/tcp/4001/p2p/QmTarget'', ''/ip4/10.0.0.3/tcp/4001/p2p/QmOther'']"] a3 r3 s3
    by blast
  have "parseIpfsAddr example_overlay ''/dnsaddr/node.example.org'' =
     Inr \<lparr>ID = ''QmTarget'', Addrs = map (\<lambda>a. fst (SplitAddr example_overlay a))
        (filter (\<lambda>a. snd (SplitAddr example_overlay a) \<noteq> [])
           [''/ip4/10.0.0.1/tcp/4001/p2p/QmTarget'', ''/ip4/10.0.0.2/tcp/4001'',
            ''/ip4/10.0.0.4/tcp/4001/p2p/QmTarget''])\<rparr>"
    using parseIpfsAddr_cases [OF p4, of _ _ "Collaborator ''invalid p2p multiaddr''"
        "[''/ip4/10.0.0.1/tcp/4001/p2p/QmTarget'', ''/ip4/10.0.0.2/tcp/4001'',
            ''/ip4/10.0.0.4/tcp/4001/p2p/QmTarget'']" "''QmTarget''"] a4 r4 s4
    by blast
  then have c4: "parseIpfsAddr example_overlay ''/dnsaddr/node.example.org'' =
     Inr \<lparr>ID = ''QmTarget'', Addrs = [Some ''/ip4/10.0.0.1/tcp/4001'', Some ''/ip4/10.0.0.4/tcp/4001'']\<rparr>"
    by (simp add: example_defs)
  from c1 c2 c3 c4 show ?thesis by blast
qed

text \<open>
  The claim as stated, that on success all the resolved addresses are merged, fails where
  some result carries no identity: of the three addresses \<^verbatim>\<open>/dnsaddr/node.example.org\<close>
  resolves to, the second has no peer part and is not among the addresses returned.
\<close>

theorem parseIpfsAddr_drops_counterexample:
  "Resolve example_overlay ''/dnsaddr/node.example.org'' =
     Inr [''/ip4/10.0.0.1/tcp/4001/p2p/QmTarget'', ''/ip4/10.0.0.2/tcp/4001'',
          ''/ip4/10.0.0.4/tcp/4001/p2p/QmTarget''] \<and>
   parseIpfsAddr example_overlay ''/dnsaddr/node.example.org'' =
     Inr \<lparr>ID = ''QmTarget'', Addrs = [Some ''/ip4/10.0.0.1/tcp/4001'', Some ''/ip4/10.0.0.4/tcp/4001'']\<rparr>"
  by (simp add: parseIpfsAddr_def example_defs)

text \<open>
  C9: if the resolution yields a non-empty list of addresses none of which carries a peer
  identity, the resolver returns successfully an \<^verbatim>\<open>AddrInfo\<close> with the empty identity and
  no address: every record is skipped.
\<close>

theorem parseIpfsAddr_no_identity:
  assumes "NewMultiaddr ov addr = Inr m"
    and "AddrInfoFromP2pAddr ov m = Inl e"
    and "Resolve ov m = Inr addrs"
    and "addrs \<noteq> []"
    and "\<forall>a\<in>set addrs. snd (SplitAddr ov a) = []"
  shows "parseIpfsAddr ov addr = Inr \<lparr>ID = [], Addrs = []\<rparr>"
  using assms by (simp add: parseIpfsAddr_def merge_resolved_skip)

theorem parseIpfsAddr_no_identity_witness:
  "NewMultiaddr example_overlay ''/dnsaddr/plain.example.org'' = Inr ''/dnsaddr/plain.example.org'' \<and>
   AddrInfoFromP2pAddr example_overlay ''/dnsaddr/plain.example.org'' = Inl (Collaborator ''invalid p2p multiaddr'') \<and>
   Resolve example_overlay ''/dnsaddr/plain.example.org'' = Inr [''/ip4/10.0.0.2/tcp/4001''] \<and>
   snd (SplitAddr example_overlay ''/ip4/10.0.0.2/tcp/4001'') = [] \<and>
   parseIpfsAddr example_overlay ''/dnsaddr/plain.example.org'' = Inr \<lparr>ID = [], Addrs = []\<rparr>"
proof -
  have 1: "NewMultiaddr example_overlay ''/dnsaddr/plain.example.org'' = Inr ''/dnsaddr/plain.example.org''"
    by (simp add: example_defs)
  have 2: "AddrInfoFromP2pAddr example_overlay ''/dnsaddr/plain.example.org'' = Inl (Collaborator ''invalid p2p multiaddr'')"
    by (simp add: example_defs)
  have 3: "Resolve example_overlay ''/dnsaddr/plain.example.org'' = Inr [''/ip4/10.0.0.2/tcp/4001'']"
    by (simp add: example_defs)
  have 4: "[''/ip4/10.0.0.2/tcp/4001''] \<noteq> []" by simp
  have 5: "\<forall>a\<in>set [''/ip4/10.0.0.2/tcp/4001'']. snd (SplitAddr example_overlay a) = []"
    by (simp add: example_defs)
  from parseIpfsAddr_no_identity [OF 1 2 3 4 5] 1 2 3 5 show ?thesis by simp
qed

section \<open>The health check\<close>

lemma CheckForwardHealth_same:
  "CheckForwardHealth ov c proto peerId = Returns r c' \<Longrightarrow> c' = c"
  by (auto simp: CheckForwardHealth_def host_NewStream_def stream_Close_def Let_def
      split: sum.splits option.splits prod.splits)

lemma CheckForwardHealth_returns:
  assumes "Host c = Some h"
  shows "\<exists>r. CheckForwardHealth ov c proto peerId = Returns r c"
proof -
  have "c\<lparr>Host := Some h\<rparr> = c" using assms by simp
  with assms show ?thesis
    by (auto simp: CheckForwardHealth_def host_NewStream_def stream_Close_def
        split: sum.splits option.splits)
qed

lemma CheckForwardHealth_live:
  assumes "Host c = Some h" and "Host c' = Some h'"
    and "CheckForwardHealth ov c proto peerId = Returns r c"
  shows "CheckForwardHealth ov c' proto peerId = Returns r c'"
proof -
  have "c\<lparr>Host := Some h\<rparr> = c" "c'\<lparr>Host := Some h'\<rparr> = c'" using assms(1,2) by simp_all
  with assms show ?thesis
    by (auto simp: CheckForwardHealth_def host_NewStream_def stream_Close_def
        split: sum.splits option.splits)
qed

lemma CheckForwardHealth_Host:
  "CheckForwardHealth ov c proto peerId = Returns None c' \<Longrightarrow> \<exists>h. Host c = Some h"
  by (auto simp: CheckForwardHealth_def host_NewStream_def split: sum.splits option.splits)

text \<open>
  C7: on a live client the health check returns, and it returns success exactly when the
  address of the peer resolves and a new stream to the resolved peer opens under the
  protocol (the 30-second timeout is part of the answer of \<open>NewStream\<close>). On success the
  stream that was opened is closed before the return, so that the host holds the streams
  it held before; an error of the dial, and an error of the resolution, is the error
  returned.
\<close>

theorem CheckForwardHealth_probe:
  assumes "Host c = Some h"
  shows "\<exists>r. CheckForwardHealth ov c proto peerId = Returns r c \<and>
     (r = None \<longleftrightarrow>
        (\<exists>t. parseIpfsAddr ov (''/p2p/'' @ peerId) = Inr t \<and> NewStream ov (ID t) proto = None)) \<and>
     (r = None \<longrightarrow>
        (\<exists>t s h'. parseIpfsAddr ov (''/p2p/'' @ peerId) = Inr t \<and>
           host_NewStream ov h (ID t) proto = Inr (s, h') \<and> s \<in> set (open_streams h') \<and>
           stream_Close s h' = h)) \<and>
     (\<forall>t e. parseIpfsAddr ov (''/p2p/'' @ peerId) = Inr t \<and> NewStream ov (ID t) proto = Some e
        \<longrightarrow> r = Some e) \<and>
     (\<forall>e. parseIpfsAddr ov (''/p2p/'' @ peerId) = Inl e \<longrightarrow> r = Some e)"
proof (cases "parseIpfsAddr ov (''/p2p/'' @ peerId)")
  case (Inl e)
  then show ?thesis by (simp add: CheckForwardHealth_def)
next
  case (Inr t)
  show ?thesis
  proof (cases "NewStream ov (ID t) proto")
    case None
    have "c\<lparr>Host := Some h\<rparr> = c" using assms by simp
    with None Inr assms show ?thesis
      by (simp add: CheckForwardHealth_def host_NewStream_def stream_Close_def)
  next
    case (Some e)
    with Inr assms show ?thesis
      by (simp add: CheckForwardHealth_def host_NewStream_def)
  qed
qed

theorem CheckForwardHealth_probe_witness:
  "Host example_client = Some example_host \<and>
   CheckForwardHealth example_overlay example_client ''/x/ssh'' ''QmTarget'' = Returns None example_client \<and>
   CheckForwardHealth unreachable_overlay example_client ''/x/ssh'' ''QmTarget'' =
     Returns (Some (Collaborator ''dial backoff'')) example_client"
proof -
  have h: "Host example_client = Some example_host" by (simp add: example_defs)
  have p: "parseIpfsAddr example_overlay (''/p2p/'' @ ''QmTarget'') = Inr \<lparr>ID = ''QmTarget'', Addrs = []\<rparr>"
    by (simp add: parseIpfsAddr_def example_defs)
  have p': "parseIpfsAddr unreachable_overlay (''/p2p/'' @ ''QmTarget'') = Inr \<lparr>ID = ''QmTarget'', Addrs = []\<rparr>"
    by (simp add: parseIpfsAddr_def example_defs)
  have n: "NewStream example_overlay (ID \<lparr>ID = ''QmTarget'', Addrs = []\<rparr>) ''/x/ssh'' = None"
    by (simp add: example_defs)
  have n': "NewStream unreachable_overlay (ID \<lparr>ID = ''QmTarget'', Addrs = []\<rparr>) ''/x/ssh'' =
      Some (Collaborator ''dial backoff'')"
    by (simp add: example_defs)
  from CheckForwardHealth_probe [OF h, of example_overlay "''/x/ssh''" "''QmTarget''"] p n
  have 1: "CheckForwardHealth example_overlay example_client ''/x/ssh'' ''QmTarget'' = Returns None example_client"
    by auto
  from CheckForwardHealth_probe [OF h, of unreachable_overlay "''/x/ssh''" "''QmTarget''"] p' n'
  have 2: "CheckForwardHealth unreachable_overlay example_client ''/x/ssh'' ''QmTarget'' =
     Returns (Some (Collaborator ''dial backoff'')) example_client"
    by auto
  from h 1 2 show ?thesis by simp
qed

section \<open>Listen\<close>

text \<open>
  C8: the code at the target \<^verbatim>\<open>not-a-multiaddr\<close>, which does not parse. \<^verbatim>\<open>Listen\<close>
  returns the nil error and has registered an overlay-to-local forward whose target is
  the nil multiaddress: the parse error is printed and not returned, where \<^verbatim>\<open>Forward\<close>
  returns the error of parsing its listen address.
\<close>

theorem Listen_unparseable_target:
  "NewMultiaddr example_overlay ''not-a-multiaddr'' = Inl (Collaborator ''failed to parse multiaddr'') \<and>
   Listen example_overlay example_client ''/x/ssh'' ''not-a-multiaddr'' =
     Returns None
       (example_client\<lparr>P2P := Some (example_p2p\<lparr>ListenersP2P :=
          [\<lparr>lProtocol = ''/x/ssh'', lListenAddress = ''/p2p/QmSelf'', lTargetAddress = None\<rparr>]\<rparr>)\<rparr>)"
  by (simp add: Listen_def ForwardRemote_def example_defs)

section \<open>Close\<close>

lemma filterListener_total:
  "\<forall>l\<in>set ls. f l \<noteq> None \<Longrightarrow> filterListener ls f = Some (filter (\<lambda>l. f l = Some True) ls)"
  by (induction ls) auto

lemma Listeners_Close_total:
  "\<forall>l\<in>set ls. f l \<noteq> None \<Longrightarrow>
   Listeners_Close ls f = Some (length (filter (\<lambda>l. f l = Some True) ls), filter (\<lambda>l. f l \<noteq> Some True) ls)"
  by (simp add: Listeners_Close_def filterListener_total)

lemma close_match_Some:
  "lTargetAddress l \<noteq> None \<Longrightarrow> close_match a l = Some (lTargetAddress l = Some a)"
  by (auto simp: close_match_def split: option.splits)

lemma Listeners_Close_target:
  assumes "\<forall>l\<in>set ls. lTargetAddress l \<noteq> None"
  shows "Listeners_Close ls (close_match a) =
     Some (length (filter (\<lambda>l. lTargetAddress l = Some a) ls),
           filter (\<lambda>l. lTargetAddress l \<noteq> Some a) ls)"
proof -
  have 1: "\<forall>l\<in>set ls. close_match a l \<noteq> None" using assms by (simp add: close_match_Some)
  have 2: "filter (\<lambda>l. close_match a l = Some True) ls = filter (\<lambda>l. lTargetAddress l = Some a) ls"
    using assms by (intro filter_cong) (auto simp: close_match_Some)
  have 3: "filter (\<lambda>l. close_match a l \<noteq> Some True) ls = filter (\<lambda>l. lTargetAddress l \<noteq> Some a) ls"
    using assms by (intro filter_cong) (auto simp: close_match_Some)
  show ?thesis using Listeners_Close_total [OF 1] 2 3 by simp
qed

lemma Close_result:
  assumes "NewMultiaddr ov target = Inr a"
    and "P2P c = Some p"
    and "\<forall>l\<in>set (ListenersLocal p). lTargetAddress l \<noteq> None"
    and "\<forall>l\<in>set (ListenersP2P p). lTargetAddress l \<noteq> None"
  shows "Close ov c target =
       Returns (length (filter (\<lambda>l. lTargetAddress l = Some a) (ListenersLocal p)) +
                length (filter (\<lambda>l. lTargetAddress l = Some a) (ListenersP2P p)), None)
         (c\<lparr>P2P := Some (p\<lparr>ListenersLocal := filter (\<lambda>l. lTargetAddress l \<noteq> Some a) (ListenersLocal p),
                          ListenersP2P := filter (\<lambda>l. lTargetAddress l \<noteq> Some a) (ListenersP2P p)\<rparr>)\<rparr>)"
  using assms(1,2)
  by (simp add: Close_def Listeners_Close_target [OF assms(3)] Listeners_Close_target [OF assms(4)])

lemma filter_removed_none:
  "filter (\<lambda>l. lTargetAddress l = Some a) (filter (\<lambda>l. lTargetAddress l \<noteq> Some a) ls) = []"
  by (induction ls) auto

text \<open>
  C2, as the code has it. On a live client whose registered forwards all have a target,
  \<^verbatim>\<open>Close\<close> of a text that parses to the multiaddress \<open>a\<close> removes from both registries
  exactly the forwards whose target is \<open>a\<close>, returns their number with the nil error, and
  a second call with the same text on the resulting client returns 0 and changes
  nothing.
\<close>

theorem Close_removes_matching:
  assumes "NewMultiaddr ov target = Inr a"
    and "P2P c = Some p"
    and "\<forall>l\<in>set (ListenersLocal p @ ListenersP2P p). lTargetAddress l \<noteq> None"
  shows "\<exists>c'. Close ov c target =
       Returns (length (filter (\<lambda>l. lTargetAddress l = Some a) (ListenersLocal p)) +
                length (filter (\<lambda>l. lTargetAddress l = Some a) (ListenersP2P p)), None) c' \<and>
     c' = c\<lparr>P2P := Some (p\<lparr>ListenersLocal := filter (\<lambda>l. lTargetAddress l \<noteq> Some a) (ListenersLocal p),
                          ListenersP2P := filter (\<lambda>l. lTargetAddress l \<noteq> Some a) (ListenersP2P p)\<rparr>)\<rparr> \<and>
     Close ov c' target = Returns (0, None) c'"
proof -
  define p' where "p' = p\<lparr>ListenersLocal := filter (\<lambda>l. lTargetAddress l \<noteq> Some a) (ListenersLocal p),
               ListenersP2P := filter (\<lambda>l. lTargetAddress l \<noteq> Some a) (ListenersP2P p)\<rparr>"
  define c' where "c' = c\<lparr>P2P := Some p'\<rparr>"
  have loc: "\<forall>l\<in>set (ListenersLocal p). lTargetAddress l \<noteq> None"
    and rem: "\<forall>l\<in>set (ListenersP2P p). lTargetAddress l \<noteq> None"
    using assms(3) by auto
  have first: "Close ov c target =
       Returns (length (filter (\<lambda>l. lTargetAddress l = Some a) (ListenersLocal p)) +
                length (filter (\<lambda>l. lTargetAddress l = Some a) (ListenersP2P p)), None) c'"
    unfolding c'_def p'_def by (rule Close_result [OF assms(1,2) loc rem])
  have P: "P2P c' = Some p'" by (simp add: c'_def)
  have loc': "\<forall>l\<in>set (ListenersLocal p'). lTargetAddress l \<noteq> None"
    and rem': "\<forall>l\<in>set (ListenersP2P p'). lTargetAddress l \<noteq> None"
    using loc rem by (auto simp: p'_def)
  have same: "c'\<lparr>P2P := Some (p'\<lparr>ListenersLocal := filter (\<lambda>l. lTargetAddress l \<noteq> Some a) (ListenersLocal p'),
                          ListenersP2P := filter (\<lambda>l. lTargetAddress l \<noteq> Some a) (ListenersP2P p')\<rparr>)\<rparr> = c'"
    by (simp add: c'_def p'_def)
  have zero: "length (filter (\<lambda>l. lTargetAddress l = Some a) (ListenersLocal p')) +
                length (filter (\<lambda>l. lTargetAddress l = Some a) (ListenersP2P p')) = 0"
    by (simp add: p'_def filter_removed_none)
  have second: "Close ov c' target = Returns (0, None) c'"
    using Close_result [OF assms(1) P loc' rem'] same zero by simp
  from first second show ?thesis unfolding c'_def p'_def by blast
qed

theorem Close_removes_matching_witness:
  "NewMultiaddr example_overlay ''/ip4/127.0.0.1/tcp/80'' = Inr ''/ip4/127.0.0.1/tcp/80'' \<and>
   Close example_overlay listening_client ''/ip4/127.0.0.1/tcp/80'' = Returns (1, None) example_client \<and>
   Close example_overlay example_client ''/ip4/127.0.0.1/tcp/80'' = Returns (0, None) example_client"
proof -
  define p where "p = example_p2p\<lparr>ListenersP2P :=
      [\<lparr>lProtocol = ''/x/ssh'', lListenAddress = ''/p2p/QmSelf'',
        lTargetAddress = Some ''/ip4/127.0.0.1/tcp/80''\<rparr>]\<rparr>"
  have 1: "NewMultiaddr example_overlay ''/ip4/127.0.0.1/tcp/80'' = Inr ''/ip4/127.0.0.1/tcp/80''"
    by (simp add: example_defs)
  have 2: "P2P listening_client = Some p" by (simp add: listening_client_def p_def)
  have 3: "\<forall>l\<in>set (ListenersLocal p @ ListenersP2P p). lTargetAddress l \<noteq> None"
    by (simp add: p_def example_defs)
  have 4: "listening_client\<lparr>P2P := Some (p\<lparr>ListenersLocal := filter (\<lambda>l. lTargetAddress l \<noteq> Some ''/ip4/127.0.0.1/tcp/80'') (ListenersLocal p),
                          ListenersP2P := filter (\<lambda>l. lTargetAddress l \<noteq> Some ''/ip4/127.0.0.1/tcp/80'') (ListenersP2P p)\<rparr>)\<rparr> = example_client"
    by (simp add: p_def listening_client_def example_defs)
  have 5: "length (filter (\<lambda>l. lTargetAddress l = Some ''/ip4/127.0.0.1/tcp/80'') (ListenersLocal p)) +
                length (filter (\<lambda>l. lTargetAddress l = Some ''/ip4/127.0.0.1/tcp/80'') (ListenersP2P p)) = 1"
    by (simp add: p_def example_defs)
  from Close_removes_matching [OF 1 2 3] 1 show ?thesis unfolding 4 5 by simp
qed

text \<open>
  The claim as stated compares the target of a forward with the text given. The code
  compares it with the multiaddress the text parses to: the forward that
  \<^verbatim>\<open>Listen\<close> registered with the target \<^verbatim>\<open>/ip4/127.0.0.1/tcp/80\<close> is closed by the text
  \<^verbatim>\<open>/ip4/127.0.0.1/tcp/80/\<close>, which is another text and the same multiaddress.
\<close>

theorem Close_textual_counterexample:
  "Listen example_overlay example_client ''/x/ssh'' ''/ip4/127.0.0.1/tcp/80'' = Returns None listening_client \<and>
   List listening_client =
     Returns [\<lparr>Protocol = ''/x/ssh'', ListenAddress = ''/p2p/QmSelf'', TargetAddress = ''/ip4/127.0.0.1/tcp/80''\<rparr>]
       listening_client \<and>
   ''/ip4/127.0.0.1/tcp/80'' \<noteq> ''/ip4/127.0.0.1/tcp/80/'' \<and>
   Close example_overlay listening_client ''/ip4/127.0.0.1/tcp/80/'' = Returns (1, None) example_client"
  by (simp add: Listen_def ForwardRemote_def List_def listener_info_def Close_def Listeners_Close_def
      close_match_def listening_client_def example_defs)

text \<open>
  C10: for a target text that is not a parseable multiaddress, \<^verbatim>\<open>Close\<close> returns the
  count 0 together with the parse error, and leaves the client, both registries included,
  as it was.
\<close>

theorem Close_unparseable:
  "NewMultiaddr ov target = Inl e \<Longrightarrow> Close ov c target = Returns (0, Some e) c"
  by (simp add: Close_def)

theorem Close_unparseable_witness:
  "NewMultiaddr example_overlay ''not-a-multiaddr'' = Inl (Collaborator ''failed to parse multiaddr'') \<and>
   Close example_overlay example_client ''not-a-multiaddr'' =
     Returns (0, Some (Collaborator ''failed to parse multiaddr'')) example_client"
proof -
  have h: "NewMultiaddr example_overlay ''not-a-multiaddr'' = Inl (Collaborator ''failed to parse multiaddr'')"
    by (simp add: example_defs)
  from h Close_unparseable [OF h, of example_client] show ?thesis by simp
qed

section \<open>Forward\<close>

text \<open>
  C4: for every protocol and port, \<^verbatim>\<open>Forward\<close> with the empty peer identifier returns
  the error \<open>EmptyPeerID\<close> and leaves the client, both registries included, as it was.
\<close>

theorem Forward_empty_peer_id:
  "Forward ov rnd c protoOpt port [] = Returns (Some EmptyPeerID) c"
  by (simp add: Forward_def)

theorem Forward_empty_peer_id_witness:
  "Forward example_overlay 0 example_client ''/x/ssh'' 8000 '''' = Returns (Some EmptyPeerID) example_client"
  using Forward_empty_peer_id [of example_overlay 0 example_client "''/x/ssh''" 8000] by simp

subsection \<open>The relay fallback\<close>

lemma randomSubsetOfPeers_one:
  assumes "ins \<noteq> []"
  shows "randomSubsetOfPeers rnd ins 1 = [ins ! (rnd mod length ins)]"
proof -
  let ?k = "rnd mod length ins"
  have k: "?k < length ins" using assms by simp
  have "rotate ?k ins \<noteq> []" using assms by simp
  then have "take 1 (rotate ?k ins) = [hd (rotate ?k ins)]"
    by (cases "rotate ?k ins") simp_all
  also have "hd (rotate ?k ins) = ins ! ?k"
    using k by (simp add: hd_rotate_conv_nth assms)
  finally show ?thesis using assms by (simp add: randomSubsetOfPeers_def)
qed

lemma ConnectCircuit_Returns:
  assumes "ConnectCircuit ov c circuitPeer targetPeer = Returns r c2"
  shows "P2P c2 = P2P c \<and> Peers c2 = Peers c \<and>
    (c2 = c \<or> (\<exists>h pi. Host c = Some h \<and> c2 = c\<lparr>Host := Some (h\<lparr>connects := connects h @ [pi]\<rparr>)\<rparr>))"
  using assms by (auto simp: ConnectCircuit_def split: sum.splits option.splits)

lemma ConnectCircuit_live:
  assumes "Host c' = Some h'" and "P2P c' = Some p'"
    and "ConnectCircuit ov c circuitPeer targetPeer = Returns r c2"
  shows "\<exists>c2' h2'. ConnectCircuit ov c' circuitPeer targetPeer = Returns r c2' \<and>
     P2P c2' = Some p' \<and> Host c2' = Some h2' \<and> Peers c2' = Peers c'"
  using assms by (auto simp: ConnectCircuit_def split: sum.splits option.splits)

lemma forwardLocal_Returns:
  assumes "forwardLocal ov c p proto bindAddr addr = Returns r c2"
  shows "\<exists>h ai. Host c = Some h \<and> addr = Some ai \<and> Peers c2 = Peers c \<and>
     Host c2 = Some (h\<lparr>addrbook := addrbook h @ [(ID ai, Addrs ai)]\<rparr>) \<and>
     (r = None \<longrightarrow> P2P c2 = Some (p\<lparr>ListenersLocal := ListenersLocal p @
          [\<lparr>lProtocol = proto, lListenAddress = bindAddr, lTargetAddress = Some (''/p2p/'' @ ID ai)\<rparr>]\<rparr>)) \<and>
     (r \<noteq> None \<longrightarrow> P2P c2 = Some p)"
  using assms
  by (auto simp: forwardLocal_def ForwardLocal_def Let_def split: option.splits prod.splits)

lemma Forward_register_connects:
  assumes "Forward_register ov c protoOpt port peerId = Returns r c2" and "Host c = Some h"
  shows "\<exists>h2. Host c2 = Some h2 \<and> connects h2 = connects h"
proof -
  from assms have "c2 = c \<or> (\<exists>p l ai. forwardLocal ov c p protoOpt l ai = Returns r c2)"
    by (auto simp: Forward_register_def Let_def split: sum.splits option.splits if_splits)
  then show ?thesis
  proof
    assume "c2 = c" with assms(2) show ?thesis by simp
  next
    assume "\<exists>p l ai. forwardLocal ov c p protoOpt l ai = Returns r c2"
    then obtain p l ai where "forwardLocal ov c p protoOpt l ai = Returns r c2" by blast
    from forwardLocal_Returns [OF this] assms(2) show ?thesis by auto
  qed
qed

text \<open>
  C5, as the code has it. When the health check of a non-empty peer identifier fails:
  with no peer configured, \<^verbatim>\<open>Forward\<close> returns \<open>NoRelayAvailable\<close> and leaves the client as
  it was; with peers configured, one of them is selected by the random draw, and an error
  that the circuit attempt through it returns is the error \<^verbatim>\<open>Forward\<close> returns, with the
  registries as they were. In every case the host has issued at most one connect
  request.
\<close>

theorem Forward_unreachable:
  assumes "peerId \<noteq> []"
    and "CheckForwardHealth ov c protoOpt peerId = Returns (Some err) c"
  shows "(Peers c = [] \<longrightarrow> Forward ov rnd c protoOpt port peerId = Returns (Some NoRelayAvailable) c) \<and>
    (Peers c \<noteq> [] \<longrightarrow>
       (\<exists>relay\<in>set (convertPeers ov (Peers c)).
          randomSubsetOfPeers rnd (convertPeers ov (Peers c)) 1 = [relay] \<and>
          (\<forall>e c2. ConnectCircuit ov c (ID relay) peerId = Returns (Some e) c2 \<longrightarrow>
             Forward ov rnd c protoOpt port peerId = Returns (Some e) c2 \<and> P2P c2 = P2P c))) \<and>
    (\<forall>r c2 h h2. Forward ov rnd c protoOpt port peerId = Returns r c2 \<and> Host c = Some h \<and>
        Host c2 = Some h2 \<longrightarrow>
          connects h2 = connects h \<or> (\<exists>pi. connects h2 = connects h @ [pi]))"
proof (intro conjI impI allI)
  assume "Peers c = []"
  with assms show "Forward ov rnd c protoOpt port peerId = Returns (Some NoRelayAvailable) c"
    by (simp add: Forward_def randomSubsetOfPeers_def convertPeers_def)
next
  assume ne: "Peers c \<noteq> []"
  let ?ins = "convertPeers ov (Peers c)"
  let ?relay = "?ins ! (rnd mod length ?ins)"
  have ins: "?ins \<noteq> []" using ne by (simp add: convertPeers_def)
  have sel: "randomSubsetOfPeers rnd ?ins 1 = [?relay]" by (rule randomSubsetOfPeers_one [OF ins])
  have mem: "?relay \<in> set ?ins" using ins by simp
  have fwd: "\<forall>e c2. ConnectCircuit ov c (ID ?relay) peerId = Returns (Some e) c2 \<longrightarrow>
             Forward ov rnd c protoOpt port peerId = Returns (Some e) c2 \<and> P2P c2 = P2P c"
  proof (intro allI impI)
    fix e c2
    assume cc: "ConnectCircuit ov c (ID ?relay) peerId = Returns (Some e) c2"
    from ConnectCircuit_Returns [OF cc] have "P2P c2 = P2P c" by simp
    moreover have "Forward ov rnd c protoOpt port peerId = Returns (Some e) c2"
      using assms sel cc by (simp add: Forward_def)
    ultimately show "Forward ov rnd c protoOpt port peerId = Returns (Some e) c2 \<and> P2P c2 = P2P c"
      by simp
  qed
  from mem sel fwd
  show "\<exists>relay\<in>set ?ins. randomSubsetOfPeers rnd ?ins 1 = [relay] \<and>
          (\<forall>e c2. ConnectCircuit ov c (ID relay) peerId = Returns (Some e) c2 \<longrightarrow>
             Forward ov rnd c protoOpt port peerId = Returns (Some e) c2 \<and> P2P c2 = P2P c)"
    by blast
next
  fix r c2 h h2
  assume a: "Forward ov rnd c protoOpt port peerId = Returns r c2 \<and> Host c = Some h \<and> Host c2 = Some h2"
  let ?ins = "convertPeers ov (Peers c)"
  let ?bp = "randomSubsetOfPeers rnd ?ins 1"
  show "connects h2 = connects h \<or> (\<exists>pi. connects h2 = connects h @ [pi])"
  proof (cases "length ?bp = 0")
    case True
    with a assms show ?thesis by (auto simp: Forward_def)
  next
    case False
    show ?thesis
    proof (cases "ConnectCircuit ov c (ID (hd ?bp)) peerId")
      case Panics
      with False a assms show ?thesis by (auto simp: Forward_def Let_def)
    next
      case (Returns rc c1)
      from ConnectCircuit_Returns [OF Returns] a
      obtain h1 where h1: "Host c1 = Some h1"
        "connects h1 = connects h \<or> (\<exists>pi. connects h1 = connects h @ [pi])"
        by auto
      show ?thesis
      proof (cases rc)
        case (Some e)
        with Returns False a assms have "c2 = c1" by (auto simp: Forward_def Let_def)
        with h1 a show ?thesis by auto
      next
        case None
        with Returns False a assms
        have fr: "recovered c1 (Forward_register ov c1 protoOpt port peerId) = Returns r c2"
          by (auto simp: Forward_def Let_def)
        show ?thesis
        proof (cases "Forward_register ov c1 protoOpt port peerId")
          case Panics
          with fr have "c2 = c1" by (simp add: recovered_def)
          with h1 a show ?thesis by auto
        next
          case (Returns r' c')
          with fr have "Forward_register ov c1 protoOpt port peerId = Returns r c2"
            by (simp add: recovered_def)
          from Forward_register_connects [OF this h1(1)] a h1(2) show ?thesis by auto
        qed
      qed
    qed
  qed
qed

theorem Forward_unreachable_witness:
  "CheckForwardHealth unreachable_overlay (example_client\<lparr>Peers := []\<rparr>) ''/x/ssh'' ''QmTarget'' =
     Returns (Some (Collaborator ''dial backoff'')) (example_client\<lparr>Peers := []\<rparr>) \<and>
   Forward unreachable_overlay 0 (example_client\<lparr>Peers := []\<rparr>) ''/x/ssh'' 8000 ''QmTarget'' =
     Returns (Some NoRelayAvailable) (example_client\<lparr>Peers := []\<rparr>) \<and>
   CheckForwardHealth relay_down_overlay example_client ''/x/ssh'' ''QmTarget'' =
     Returns (Some (Collaborator ''dial backoff'')) example_client \<and>
   Forward relay_down_overlay 0 example_client ''/x/ssh'' 8000 ''QmTarget'' =
     Returns (Some (Collaborator ''dial to relay failed'')) dialed_client"
proof -
  have 1: "''QmTarget'' \<noteq> []" by simp
  have 2: "CheckForwardHealth unreachable_overlay (example_client\<lparr>Peers := []\<rparr>) ''/x/ssh'' ''QmTarget'' =
     Returns (Some (Collaborator ''dial backoff'')) (example_client\<lparr>Peers := []\<rparr>)"
    by (simp add: CheckForwardHealth_def parseIpfsAddr_def host_NewStream_def example_defs)
  have 3: "Peers (example_client\<lparr>Peers := []\<rparr>) = []" by simp
  from Forward_unreachable [OF 1 2, of 0 8000] 3
  have a: "Forward unreachable_overlay 0 (example_client\<lparr>Peers := []\<rparr>) ''/x/ssh'' 8000 ''QmTarget'' =
     Returns (Some NoRelayAvailable) (example_client\<lparr>Peers := []\<rparr>)" by blast
  have 4: "CheckForwardHealth relay_down_overlay example_client ''/x/ssh'' ''QmTarget'' =
     Returns (Some (Collaborator ''dial backoff'')) example_client"
    by (simp add: CheckForwardHealth_def parseIpfsAddr_def host_NewStream_def relay_down_overlay_def example_defs)
  have 5: "Peers example_client \<noteq> []" by (simp add: example_defs)
  have 6: "randomSubsetOfPeers 0 (convertPeers relay_down_overlay (Peers example_client)) 1 =
      [\<lparr>ID = ''QmRelay'', Addrs = [Some ''/ip4/34.139.126.73/tcp/4001'']\<rparr>]"
    by (simp add: randomSubsetOfPeers_def convertPeers_def relay_down_overlay_def example_defs)
  have 7: "ConnectCircuit relay_down_overlay example_client ''QmRelay'' ''QmTarget'' =
      Returns (Some (Collaborator ''dial to relay failed'')) dialed_client"
    by (simp add: ConnectCircuit_def relay_down_overlay_def dialed_client_def example_defs)
  from Forward_unreachable [OF 1 4, of 0 8000] 5
  obtain relay where sel: "randomSubsetOfPeers 0 (convertPeers relay_down_overlay (Peers example_client)) 1 = [relay]"
    and r: "\<forall>e c2. ConnectCircuit relay_down_overlay example_client (ID relay) ''QmTarget'' = Returns (Some e) c2 \<longrightarrow>
             Forward relay_down_overlay 0 example_client ''/x/ssh'' 8000 ''QmTarget'' = Returns (Some e) c2 \<and>
             P2P c2 = P2P example_client"
    by blast
  from sel have "relay = \<lparr>ID = ''QmRelay'', Addrs = [Some ''/ip4/34.139.126.73/tcp/4001'']\<rparr>"
    unfolding 6 by simp
  then have "ID relay = ''QmRelay''" by simp
  with r 7 have b: "Forward relay_down_overlay 0 example_client ''/x/ssh'' 8000 ''QmTarget'' =
     Returns (Some (Collaborator ''dial to relay failed'')) dialed_client" by simp
  from 2 a 4 b show ?thesis by simp
qed

text \<open>
  The claim as stated, that a failure of the circuit attempt is propagated, fails where the
  attempt panics: for the peer identifier \<^verbatim>\<open>bad\<close> the health check fails on the address,
  \<^verbatim>\<open>ConnectCircuit\<close> panics on the relay address, the deferred \<^verbatim>\<open>recover\<close> ends
  \<^verbatim>\<open>Forward\<close>, and the caller is given the nil error.
\<close>

theorem Forward_swallows_counterexample:
  "CheckForwardHealth example_overlay example_client ''/x/ssh'' ''bad'' =
     Returns (Some (Collaborator ''failed to parse multiaddr'')) example_client \<and>
   randomSubsetOfPeers 0 (convertPeers example_overlay (Peers example_client)) 1 =
     [\<lparr>ID = ''QmRelay'', Addrs = [Some ''/ip4/34.139.126.73/tcp/4001'']\<rparr>] \<and>
   ConnectCircuit example_overlay example_client ''QmRelay'' ''bad'' = Panics \<and>
   Forward example_overlay 0 example_client ''/x/ssh'' 8000 ''bad'' = Returns None example_client"
  by (simp add: eval_defs example_defs)

subsection \<open>Calling Forward twice\<close>

lemma filterListener_append:
  "filterListener (xs @ ys) f =
     (case filterListener xs f of
        None \<Rightarrow> None
      | Some a \<Rightarrow> (case filterListener ys f of None \<Rightarrow> None | Some b \<Rightarrow> Some (a @ b)))"
  by (induction xs) (auto split: option.splits)

lemma filterListener_member:
  "filterListener ls f = Some todo \<Longrightarrow> l \<in> set ls \<Longrightarrow> f l = Some True \<Longrightarrow> l \<in> set todo"
  by (induction ls arbitrary: todo) (auto split: option.splits if_splits)

lemma Forward_register_dup:
  assumes "NewMultiaddr ov (''/ip4/127.0.0.1/tcp/'' @ Sprintf_d port) = Inr listen"
    and "NewMultiaddr ov (''/p2p/'' @ peerId) = Inr target"
    and "P2P c = Some p"
    and "filterListener (ListenersLocal p) (forward_match protoOpt listen (Some target)) = Some ls"
    and "ls \<noteq> []"
  shows "Forward_register ov c protoOpt port peerId = Returns None c"
  using assms by (simp add: Forward_register_def)

lemma Forward_register_fresh:
  assumes "NewMultiaddr ov (''/ip4/127.0.0.1/tcp/'' @ Sprintf_d port) = Inr listen"
    and "NewMultiaddr ov (''/p2p/'' @ peerId) = Inr target"
    and "P2P c = Some p"
    and "filterListener (ListenersLocal p) (forward_match protoOpt listen (Some target)) = Some []"
  shows "Forward_register ov c protoOpt port peerId =
     forwardLocal ov c p protoOpt listen
       (case parseIpfsAddr ov (''/p2p/'' @ peerId) of Inl _ \<Rightarrow> None | Inr ai \<Rightarrow> Some ai)"
  using assms by (simp add: Forward_register_def)

lemma Forward_dup:
  assumes "NewMultiaddr ov (''/ip4/127.0.0.1/tcp/'' @ Sprintf_d port) = Inr listen"
    and "NewMultiaddr ov (''/p2p/'' @ peerId) = Inr target"
    and "P2P c = Some p"
    and "filterListener (ListenersLocal p) (forward_match protoOpt listen (Some target)) = Some ls"
    and "ls \<noteq> []"
    and "Forward ov rnd c protoOpt port peerId = Returns r c2"
  shows "P2P c2 = Some p"
proof (cases "peerId = []")
  case True
  with assms(3,6) show ?thesis by (auto simp: Forward_def)
next
  case False
  show ?thesis
  proof (cases "CheckForwardHealth ov c protoOpt peerId")
    case Panics
    with False assms(6) show ?thesis by (simp add: Forward_def)
  next
    case (Returns hr c')
    from CheckForwardHealth_same [OF Returns] have c': "c' = c" .
    show ?thesis
    proof (cases hr)
      case None
      with Returns c' False assms(6)
      have "Forward_register ov c protoOpt port peerId = Returns r c2" by (simp add: Forward_def)
      with Forward_register_dup [OF assms(1-5)] assms(3) show ?thesis by simp
    next
      case (Some e)
      let ?bp = "randomSubsetOfPeers rnd (convertPeers ov (Peers c)) 1"
      show ?thesis
      proof (cases "length ?bp = 0")
        case True
        with Some Returns c' False assms(3,6) show ?thesis by (auto simp: Forward_def)
      next
        case nz: False
        show ?thesis
        proof (cases "ConnectCircuit ov c (ID (hd ?bp)) peerId")
          case Panics
          with nz Some Returns c' False assms(3,6) show ?thesis by (auto simp: Forward_def Let_def)
        next
          case cc: (Returns rc c1)
          from ConnectCircuit_Returns [OF cc] assms(3) have P1: "P2P c1 = Some p" by simp
          show ?thesis
          proof (cases rc)
            case (Some e')
            with cc nz \<open>hr = Some e\<close> Returns c' False assms(6) have "c2 = c1"
              by (auto simp: Forward_def Let_def)
            with P1 show ?thesis by simp
          next
            case None
            with cc nz \<open>hr = Some e\<close> Returns c' False assms(6)
            have "recovered c1 (Forward_register ov c1 protoOpt port peerId) = Returns r c2"
              by (auto simp: Forward_def Let_def)
            with Forward_register_dup [OF assms(1,2) P1 assms(4,5)] have "c2 = c1"
              by (simp add: recovered_def)
            with P1 show ?thesis by simp
          qed
        qed
      qed
    qed
  qed
qed

lemma Forward_success_cases:
  assumes "Forward ov rnd c protoOpt port peerId = Returns None c1"
  defines "relay \<equiv> ID (hd (randomSubsetOfPeers rnd (convertPeers ov (Peers c)) 1))"
  shows "peerId \<noteq> [] \<and>
    ((CheckForwardHealth ov c protoOpt peerId = Returns None c \<and>
        Forward_register ov c protoOpt port peerId = Returns None c1) \<or>
     (\<exists>e. CheckForwardHealth ov c protoOpt peerId = Returns (Some e) c \<and>
        (P2P c1 = P2P c \<or>
         (\<exists>c0. ConnectCircuit ov c relay peerId = Returns None c0 \<and>
            randomSubsetOfPeers rnd (convertPeers ov (Peers c)) 1 \<noteq> [] \<and>
            Forward_register ov c0 protoOpt port peerId = Returns None c1))))"
proof -
  have ne: "peerId \<noteq> []" using assms(1) by (auto simp: Forward_def)
  show ?thesis
  proof (cases "CheckForwardHealth ov c protoOpt peerId")
    case Panics
    with ne assms(1) show ?thesis by (simp add: Forward_def)
  next
    case (Returns hr c')
    from CheckForwardHealth_same [OF Returns] have c': "c' = c" .
    show ?thesis
    proof (cases hr)
      case None
      with Returns c' ne assms(1) show ?thesis by (simp add: Forward_def)
    next
      case (Some e)
      let ?bp = "randomSubsetOfPeers rnd (convertPeers ov (Peers c)) 1"
      have nz: "length ?bp \<noteq> 0" using Some Returns c' ne assms(1) by (auto simp: Forward_def)
      have hc: "CheckForwardHealth ov c protoOpt peerId = Returns (Some e) c"
        using Returns Some c' by simp
      show ?thesis
      proof (cases "ConnectCircuit ov c relay peerId")
        case Panics
        with nz Some Returns c' ne assms(1) have "c1 = c"
          by (auto simp: Forward_def Let_def relay_def)
        with hc ne show ?thesis by auto
      next
        case cc: (Returns rc c0)
        from ConnectCircuit_Returns [OF cc] have P0: "P2P c0 = P2P c" by simp
        show ?thesis
        proof (cases rc)
          case (Some e')
          with cc nz \<open>hr = Some e\<close> Returns c' ne assms(1) show ?thesis
            by (auto simp: Forward_def Let_def relay_def)
        next
          case None
          with cc nz \<open>hr = Some e\<close> Returns c' ne assms(1)
          have rec: "recovered c0 (Forward_register ov c0 protoOpt port peerId) = Returns None c1"
            by (auto simp: Forward_def Let_def relay_def)
          show ?thesis
          proof (cases "Forward_register ov c0 protoOpt port peerId")
            case Panics
            with rec have "c1 = c0" by (simp add: recovered_def)
            with P0 hc ne show ?thesis by auto
          next
            case (Returns r' c'')
            with rec have "Forward_register ov c0 protoOpt port peerId = Returns None c1"
              by (simp add: recovered_def)
            with cc None hc ne nz show ?thesis by auto
          qed
        qed
      qed
    qed
  qed
qed

lemma forward_match_triple:
  "forward_match protoOpt listen (Some target)
     \<lparr>lProtocol = protoOpt, lListenAddress = listen, lTargetAddress = Some target\<rparr> = Some True"
  by (simp add: forward_match_def)

lemma Forward_fallback_again:
  assumes "NewMultiaddr ov (''/ip4/127.0.0.1/tcp/'' @ Sprintf_d port) = Inr listen"
    and "NewMultiaddr ov (''/p2p/'' @ peerId) = Inr target"
    and "P2P c1 = Some p1" and "Host c1 = Some h1"
    and "filterListener (ListenersLocal p1) (forward_match protoOpt listen (Some target)) = Some ls"
    and "ls \<noteq> []"
    and "peerId \<noteq> []"
    and "CheckForwardHealth ov c1 protoOpt peerId = Returns (Some e) c1"
    and "ConnectCircuit ov c (ID (hd (randomSubsetOfPeers rnd (convertPeers ov (Peers c1)) 1))) peerId
           = Returns None c0"
    and "randomSubsetOfPeers rnd (convertPeers ov (Peers c1)) 1 \<noteq> []"
  shows "\<exists>c2. Forward ov rnd c1 protoOpt port peerId = Returns None c2 \<and> P2P c2 = Some p1"
proof -
  let ?bp = "randomSubsetOfPeers rnd (convertPeers ov (Peers c1)) 1"
  from ConnectCircuit_live [OF assms(4,3,9)]
  obtain c2 where cc: "ConnectCircuit ov c1 (ID (hd ?bp)) peerId = Returns None c2"
    and P2: "P2P c2 = Some p1" by blast
  have reg: "Forward_register ov c2 protoOpt port peerId = Returns None c2"
    by (rule Forward_register_dup [OF assms(1,2) P2 assms(5,6)])
  have "Forward ov rnd c1 protoOpt port peerId =
      (if length ?bp = 0 then Returns (Some NoRelayAvailable) c1 else Returns None c2)"
    using assms(7,8) cc reg by (simp add: Forward_def Let_def recovered_def)
  then show ?thesis using P2 assms(10) by auto
qed

text \<open>
  C1, as the code has it. Let the listen address and the target of the call parse to
  \<open>listen\<close> and \<open>target\<close>, and let the local registry hold no forward of the protocol from
  \<open>listen\<close> to \<open>target\<close>. If \<^verbatim>\<open>Forward\<close> returns success and has registered that forward,
  then it is registered exactly once; a second call with the same arguments and the same
  random draw returns success with the registries as they are; and with any random draw
  the second call returns with the registries as they are: no duplicate is created.
\<close>

theorem Forward_twice:
  assumes "NewMultiaddr ov (''/ip4/127.0.0.1/tcp/'' @ Sprintf_d port) = Inr listen"
    and "NewMultiaddr ov (''/p2p/'' @ peerId) = Inr target"
    and "P2P c = Some p"
    and "filterListener (ListenersLocal p) (forward_match protoOpt listen (Some target)) = Some []"
    and "Forward ov rnd c protoOpt port peerId = Returns None c1"
    and "P2P c1 = Some p1"
    and "\<lparr>lProtocol = protoOpt, lListenAddress = listen, lTargetAddress = Some target\<rparr>
           \<in> set (ListenersLocal p1)"
  shows "filterListener (ListenersLocal p1) (forward_match protoOpt listen (Some target)) =
       Some [\<lparr>lProtocol = protoOpt, lListenAddress = listen, lTargetAddress = Some target\<rparr>] \<and>
     (\<exists>c2. Forward ov rnd c1 protoOpt port peerId = Returns None c2 \<and> P2P c2 = Some p1) \<and>
     (\<forall>rnd2. \<exists>r c2. Forward ov rnd2 c1 protoOpt port peerId = Returns r c2 \<and> P2P c2 = Some p1)"
proof -
  let ?f = "forward_match protoOpt listen (Some target)"
  let ?new = "\<lparr>lProtocol = protoOpt, lListenAddress = listen, lTargetAddress = Some target\<rparr>"
  let ?relay = "ID (hd (randomSubsetOfPeers rnd (convertPeers ov (Peers c)) 1))"
  have absent: "?new \<notin> set (ListenersLocal p)"
    using filterListener_member [OF assms(4) _ forward_match_triple] by auto
  from Forward_success_cases [OF assms(5)]
  have ne: "peerId \<noteq> []"
    and cases: "(CheckForwardHealth ov c protoOpt peerId = Returns None c \<and>
        Forward_register ov c protoOpt port peerId = Returns None c1) \<or>
     (\<exists>e. CheckForwardHealth ov c protoOpt peerId = Returns (Some e) c \<and>
        (P2P c1 = P2P c \<or>
         (\<exists>c0. ConnectCircuit ov c ?relay peerId = Returns None c0 \<and>
            randomSubsetOfPeers rnd (convertPeers ov (Peers c)) 1 \<noteq> [] \<and>
            Forward_register ov c0 protoOpt port peerId = Returns None c1)))"
    by blast+
  have unchanged: "P2P c1 \<noteq> P2P c" using assms(3,6,7) absent by auto
  \<comment> \<open>the client \<open>c0\<close> on which the first call reached the registry\<close>
  from cases unchanged
  obtain c0 where reg: "Forward_register ov c0 protoOpt port peerId = Returns None c1"
    and P0: "P2P c0 = Some p" and Peers0: "Peers c0 = Peers c"
    and stage: "CheckForwardHealth ov c protoOpt peerId = Returns None c \<or>
       (\<exists>e. CheckForwardHealth ov c protoOpt peerId = Returns (Some e) c \<and>
            ConnectCircuit ov c ?relay peerId = Returns None c0 \<and>
            randomSubsetOfPeers rnd (convertPeers ov (Peers c)) 1 \<noteq> [])"
    and Host0: "Host c0 \<noteq> None \<longrightarrow> Host c \<noteq> None"
  proof -
    from cases unchanged
    consider (direct) "CheckForwardHealth ov c protoOpt peerId = Returns None c"
        "Forward_register ov c protoOpt port peerId = Returns None c1"
      | (relayed) e c0 where "CheckForwardHealth ov c protoOpt peerId = Returns (Some e) c"
        "ConnectCircuit ov c ?relay peerId = Returns None c0"
        "randomSubsetOfPeers rnd (convertPeers ov (Peers c)) 1 \<noteq> []"
        "Forward_register ov c0 protoOpt port peerId = Returns None c1"
      by blast
    then show ?thesis
    proof cases
      case direct
      with assms(3) that [of c] show ?thesis by simp
    next
      case relayed
      from ConnectCircuit_Returns [OF relayed(2)] assms(3)
      have "P2P c0 = Some p" "Peers c0 = Peers c" "Host c0 \<noteq> None \<longrightarrow> Host c \<noteq> None" by auto
      with relayed that [of c0] show ?thesis by blast
    qed
  qed
  from reg Forward_register_fresh [OF assms(1,2) P0 assms(4)]
  have "forwardLocal ov c0 p protoOpt listen
       (case parseIpfsAddr ov (''/p2p/'' @ peerId) of Inl _ \<Rightarrow> None | Inr ai \<Rightarrow> Some ai) = Returns None c1"
    by simp
  from forwardLocal_Returns [OF this]
  obtain h0 ai where fl: "Host c0 = Some h0 \<and>
     (case parseIpfsAddr ov (''/p2p/'' @ peerId) of Inl _ \<Rightarrow> None | Inr ai \<Rightarrow> Some ai) = Some ai \<and>
     Peers c1 = Peers c0 \<and>
     Host c1 = Some (h0\<lparr>addrbook := addrbook h0 @ [(ID ai, Addrs ai)]\<rparr>) \<and>
     (None = (None :: error option) \<longrightarrow> P2P c1 = Some (p\<lparr>ListenersLocal := ListenersLocal p @
          [\<lparr>lProtocol = protoOpt, lListenAddress = listen, lTargetAddress = Some (''/p2p/'' @ ID ai)\<rparr>]\<rparr>)) \<and>
     (None \<noteq> (None :: error option) \<longrightarrow> P2P c1 = Some p)"
    by blast
  from fl have H0: "Host c0 = Some h0"
    and H1: "Host c1 = Some (h0\<lparr>addrbook := addrbook h0 @ [(ID ai, Addrs ai)]\<rparr>)"
    and Peers1: "Peers c1 = Peers c0"
    and P1: "P2P c1 = Some (p\<lparr>ListenersLocal := ListenersLocal p @
          [\<lparr>lProtocol = protoOpt, lListenAddress = listen, lTargetAddress = Some (''/p2p/'' @ ID ai)\<rparr>]\<rparr>)"
    by simp_all
  from P1 assms(6)
  have p1: "ListenersLocal p1 = ListenersLocal p @
          [\<lparr>lProtocol = protoOpt, lListenAddress = listen, lTargetAddress = Some (''/p2p/'' @ ID ai)\<rparr>]"
    by auto
  with assms(7) absent have tgt: "''/p2p/'' @ ID ai = target" by auto
  from p1 tgt have p1': "ListenersLocal p1 = ListenersLocal p @ [?new]" by simp
  have one: "filterListener (ListenersLocal p1) ?f = Some [?new]"
    using assms(4) by (simp add: p1' filterListener_append forward_match_def)
  from Host0 H0 obtain h where H: "Host c = Some h" by auto
  have again: "\<exists>c2. Forward ov rnd c1 protoOpt port peerId = Returns None c2 \<and> P2P c2 = Some p1"
    using stage
  proof
    assume "CheckForwardHealth ov c protoOpt peerId = Returns None c"
    from CheckForwardHealth_live [OF H H1 this]
    have "CheckForwardHealth ov c1 protoOpt peerId = Returns None c1" .
    with ne Forward_register_dup [OF assms(1,2,6) one] assms(6) show ?thesis
      by (simp add: Forward_def)
  next
    assume "\<exists>e. CheckForwardHealth ov c protoOpt peerId = Returns (Some e) c \<and>
            ConnectCircuit ov c ?relay peerId = Returns None c0 \<and>
            randomSubsetOfPeers rnd (convertPeers ov (Peers c)) 1 \<noteq> []"
    then obtain e where hc: "CheckForwardHealth ov c protoOpt peerId = Returns (Some e) c"
      and cc: "ConnectCircuit ov c ?relay peerId = Returns None c0"
      and bp: "randomSubsetOfPeers rnd (convertPeers ov (Peers c)) 1 \<noteq> []" by blast
    have Peers: "Peers c1 = Peers c" using Peers1 Peers0 by simp
    from CheckForwardHealth_live [OF H H1 hc]
    have hc1: "CheckForwardHealth ov c1 protoOpt peerId = Returns (Some e) c1" .
    show ?thesis
      by (rule Forward_fallback_again [OF assms(1,2,6) H1 one _ ne hc1, of c rnd c0])
        (use cc bp Peers in simp_all)
  qed
  have any: "\<exists>r c2. Forward ov rnd2 c1 protoOpt port peerId = Returns r c2 \<and> P2P c2 = Some p1" for rnd2
  proof (cases "Forward ov rnd2 c1 protoOpt port peerId")
    case (Returns r c2)
    from Forward_dup [OF assms(1,2,6) one _ Returns] Returns show ?thesis by simp
  next
    case Panics
    from CheckForwardHealth_returns [OF H1]
    obtain r where "CheckForwardHealth ov c1 protoOpt peerId = Returns r c1" by blast
    with Panics ne Forward_register_dup [OF assms(1,2,6) one] show ?thesis
      by (cases r) (auto simp: Forward_def Let_def recovered_def split: outcome.splits option.splits if_splits)
  qed
  from one again any show ?thesis by blast
qed

theorem Forward_twice_witness:
  "Forward example_overlay 0 example_client ''/x/ssh'' 8000 ''QmTarget'' = Returns None forwarded_client \<and>
   List forwarded_client =
     Returns [\<lparr>Protocol = ''/x/ssh'', ListenAddress = ''/ip4/127.0.0.1/tcp/8000'',
               TargetAddress = ''/p2p/QmTarget''\<rparr>] forwarded_client \<and>
   (\<exists>c2. Forward example_overlay 0 forwarded_client ''/x/ssh'' 8000 ''QmTarget'' = Returns None c2 \<and>
         P2P c2 = Some forwarded_p2p)"
proof -
  have 1: "NewMultiaddr example_overlay (''/ip4/127.0.0.1/tcp/'' @ Sprintf_d 8000) = Inr ''/ip4/127.0.0.1/tcp/8000''"
    by (simp add: Sprintf_d_def digits_of.simps example_defs)
  have 2: "NewMultiaddr example_overlay (''/p2p/'' @ ''QmTarget'') = Inr ''/p2p/QmTarget''"
    by (simp add: example_defs)
  have 3: "P2P example_client = Some example_p2p" by (simp add: example_defs)
  have 4: "filterListener (ListenersLocal example_p2p)
      (forward_match ''/x/ssh'' ''/ip4/127.0.0.1/tcp/8000'' (Some ''/p2p/QmTarget'')) = Some []"
    by (simp add: example_defs)
  have 5: "Forward example_overlay 0 example_client ''/x/ssh'' 8000 ''QmTarget'' = Returns None forwarded_client"
    by (simp add: eval_defs forwarded_client_def forwarded_p2p_def example_defs)
  have 6: "P2P forwarded_client = Some forwarded_p2p" by (simp add: forwarded_client_def)
  have 7: "\<lparr>lProtocol = ''/x/ssh'', lListenAddress = ''/ip4/127.0.0.1/tcp/8000'',
       lTargetAddress = Some ''/p2p/QmTarget''\<rparr> \<in> set (ListenersLocal forwarded_p2p)"
    by (simp add: forwarded_p2p_def)
  have 8: "List forwarded_client =
     Returns [\<lparr>Protocol = ''/x/ssh'', ListenAddress = ''/ip4/127.0.0.1/tcp/8000'',
               TargetAddress = ''/p2p/QmTarget''\<rparr>] forwarded_client"
    by (simp add: List_def listener_info_def forwarded_client_def forwarded_p2p_def example_defs)
  from Forward_twice [OF 1 2 3 4 5 6 7] 5 8 show ?thesis by blast
qed

text \<open>
  The claim as stated, for every peer identifier, fails where the first call registers
  nothing: for the peer identifier \<^verbatim>\<open>bad\<close> each call returns success, by the deferred
  \<^verbatim>\<open>recover\<close>, and leaves the client as it was, so that no forward is registered after
  two calls.
\<close>

theorem Forward_twice_counterexample:
  "Forward example_overlay 0 example_client ''/x/ssh'' 8000 ''bad'' = Returns None example_client \<and>
   List example_client = Returns [] example_client"
  by (simp add: eval_defs List_def example_defs)

section \<open>Destroy\<close>

lemma Destroy_Returns:
  "Destroy ov c = Returns err c' \<Longrightarrow> c' = c\<lparr>P2P := None, Host := None\<rparr>"
  by (auto simp: Destroy_def Let_def split: option.splits prod.splits)

lemma CheckForwardHealth_no_host:
  "Host c = None \<Longrightarrow>
   CheckForwardHealth ov c proto peerId =
     (case parseIpfsAddr ov (''/p2p/'' @ peerId) of Inl e \<Rightarrow> Returns (Some e) c | Inr t \<Rightarrow> Panics)"
  by (simp add: CheckForwardHealth_def split: sum.splits)

lemma ConnectCircuit_no_host:
  "Host c = None \<Longrightarrow> ConnectCircuit ov c circuitPeer targetPeer = Returns r c2 \<Longrightarrow> r \<noteq> None \<and> c2 = c"
  by (auto simp: ConnectCircuit_def split: sum.splits)

lemma Forward_no_host:
  assumes "Host c = None"
  shows "Forward ov rnd c protoOpt port peerId = Panics \<or>
     (\<exists>r. Forward ov rnd c protoOpt port peerId = Returns r c)"
proof (cases "peerId = []")
  case True
  then show ?thesis by (simp add: Forward_def)
next
  case False
  show ?thesis
  proof (cases "parseIpfsAddr ov (''/p2p/'' @ peerId)")
    case (Inr t)
    with False assms show ?thesis
      by (simp add: Forward_def CheckForwardHealth_no_host)
  next
    case (Inl e)
    let ?relay = "ID (hd (randomSubsetOfPeers rnd (convertPeers ov (Peers c)) 1))"
    show ?thesis
    proof (cases "ConnectCircuit ov c ?relay peerId")
      case Panics
      with Inl False assms show ?thesis
        by (simp add: Forward_def CheckForwardHealth_no_host Let_def)
    next
      case (Returns r c2)
      from ConnectCircuit_no_host [OF assms Returns] obtain e' where "r = Some e'" "c2 = c" by auto
      with Returns Inl False assms show ?thesis
        by (simp add: Forward_def CheckForwardHealth_no_host Let_def)
    qed
  qed
qed

text \<open>
  C3, as the code has it. After \<^verbatim>\<open>Destroy\<close> has returned, the references of the client
  to its host and to its registries are nil, and the code has no check for that:
  \<^verbatim>\<open>List\<close>, \<^verbatim>\<open>Listen\<close>, \<^verbatim>\<open>Close\<close> of a text that parses, and a second
  \<^verbatim>\<open>Destroy\<close> panic; \<^verbatim>\<open>Close\<close> of a text that does not parse returns 0 and the parse
  error; \<^verbatim>\<open>Forward\<close> with the empty peer identifier returns \<open>EmptyPeerID\<close>, and with any
  other it panics or returns with the client as it is.
\<close>

theorem after_Destroy:
  assumes "Destroy ov c = Returns err c'"
  shows "P2P c' = None \<and> Host c' = None \<and>
    List c' = Panics \<and>
    Listen ov c' proto targetOpt = Panics \<and>
    (case NewMultiaddr ov target of
       Inr a \<Rightarrow> Close ov c' target = Panics
     | Inl e \<Rightarrow> Close ov c' target = Returns (0, Some e) c') \<and>
    Forward ov rnd c' protoOpt port [] = Returns (Some EmptyPeerID) c' \<and>
    (Forward ov rnd c' protoOpt port peerId = Panics \<or>
       (\<exists>r. Forward ov rnd c' protoOpt port peerId = Returns r c')) \<and>
    Destroy ov c' = Panics"
proof -
  from Destroy_Returns [OF assms] have P: "P2P c' = None" and H: "Host c' = None" by simp_all
  have 1: "List c' = Panics" using P by (simp add: List_def)
  have 2: "Listen ov c' proto targetOpt = Panics" using P by (simp add: Listen_def ForwardRemote_def)
  have 3: "(case NewMultiaddr ov target of
       Inr a \<Rightarrow> Close ov c' target = Panics
     | Inl e \<Rightarrow> Close ov c' target = Returns (0, Some e) c')"
    using P by (simp add: Close_def split: sum.splits)
  have 4: "Forward ov rnd c' protoOpt port [] = Returns (Some EmptyPeerID) c'"
    by (simp add: Forward_def)
  have 5: "Destroy ov c' = Panics" using P by (simp add: Destroy_def)
  from P H 1 2 3 4 5 Forward_no_host [OF H] show ?thesis by blast
qed

theorem after_Destroy_witness:
  "Destroy example_overlay example_client = Returns None destroyed_client \<and>
   List destroyed_client = Panics \<and>
   Listen example_overlay destroyed_client ''/x/ssh'' ''/ip4/127.0.0.1/tcp/80'' = Panics \<and>
   Close example_overlay destroyed_client ''/ip4/127.0.0.1/tcp/80'' = Panics \<and>
   Forward example_overlay 0 destroyed_client ''/x/ssh'' 8000 '''' = Returns (Some EmptyPeerID) destroyed_client \<and>
   Destroy example_overlay destroyed_client = Panics"
proof -
  have d: "Destroy example_overlay example_client = Returns None destroyed_client"
    by (simp add: Destroy_def Listeners_Close_def destroyed_client_def example_defs)
  have n: "NewMultiaddr example_overlay ''/ip4/127.0.0.1/tcp/80'' = Inr ''/ip4/127.0.0.1/tcp/80''"
    by (simp add: example_defs)
  from after_Destroy [OF d, of "''/x/ssh''" "''/ip4/127.0.0.1/tcp/80''" "''/ip4/127.0.0.1/tcp/80''" 0 "''/x/ssh''" 8000 "''''"]
    d n show ?thesis by simp
qed

text \<open>
  The claim as stated, that every operation then fails with an error, fails at the first
  of them: \<^verbatim>\<open>List\<close> panics, \<^verbatim>\<open>Forward\<close> to a peer whose address resolves panics, and
  \<^verbatim>\<open>Forward\<close> to the peer identifier \<^verbatim>\<open>bad\<close> returns success.
\<close>

theorem after_Destroy_counterexample:
  "Destroy example_overlay example_client = Returns None destroyed_client \<and>
   List destroyed_client = Panics \<and>
   Forward example_overlay 0 destroyed_client ''/x/ssh'' 8000 ''QmTarget'' = Panics \<and>
   Forward example_overlay 0 destroyed_client ''/x/ssh'' 8000 ''bad'' = Returns None destroyed_client"
  by (simp add: Destroy_def Listeners_Close_def destroyed_client_def List_def Forward_def
      CheckForwardHealth_def parseIpfsAddr_def randomSubsetOfPeers_def convertPeers_def
      ConnectCircuit_def example_defs)

end
